theory Spec2Isabelle
  imports Main "HOL-Library.Word" "HOL-Library.Stream"
begin

unbundle bit_operations_syntax

section \<open>run-command.h: error codes, option bits, struct child_process\<close>

text \<open>
  The anonymous enum of run-command.h, lines 4 to 12. The functions of run-command.c return
  the negation of one of these, or the negation of the child's exit code.
\<close>

definition ERR_RUN_COMMAND_FORK :: int where
  "ERR_RUN_COMMAND_FORK = 10000"

definition ERR_RUN_COMMAND_EXEC :: int where
  "ERR_RUN_COMMAND_EXEC = 10001"

definition ERR_RUN_COMMAND_PIPE :: int where
  "ERR_RUN_COMMAND_PIPE = 10002"

definition ERR_RUN_COMMAND_WAITPID :: int where
  "ERR_RUN_COMMAND_WAITPID = 10003"

definition ERR_RUN_COMMAND_WAITPID_WRONG_PID :: int where
  "ERR_RUN_COMMAND_WAITPID_WRONG_PID = 10004"

definition ERR_RUN_COMMAND_WAITPID_SIGNAL :: int where
  "ERR_RUN_COMMAND_WAITPID_SIGNAL = 10005"

definition ERR_RUN_COMMAND_WAITPID_NOEXIT :: int where
  "ERR_RUN_COMMAND_WAITPID_NOEXIT = 10006"

text \<open>
  The values the translator can return for a failure of the system rather than of the
  child: the negations of the reserved codes.
\<close>

definition system_errors :: "int list" where
  "system_errors =
     [- ERR_RUN_COMMAND_FORK, - ERR_RUN_COMMAND_EXEC, - ERR_RUN_COMMAND_PIPE,
      - ERR_RUN_COMMAND_WAITPID, - ERR_RUN_COMMAND_WAITPID_WRONG_PID,
      - ERR_RUN_COMMAND_WAITPID_SIGNAL, - ERR_RUN_COMMAND_WAITPID_NOEXIT]"

text \<open>The option bits of run-command.h, lines 33 to 35.\<close>

definition RUN_COMMAND_NO_STDIN :: int where
  "RUN_COMMAND_NO_STDIN = 1"

definition RUN_GIT_CMD :: int where
  "RUN_GIT_CMD = 2"

definition RUN_COMMAND_STDOUT_TO_STDERR :: int where
  "RUN_COMMAND_STDOUT_TO_STDERR = 4"

text \<open>
  \<^verbatim>\<open>struct child_process\<close> (run-command.h, lines 14 to 27). The fields carry the prefix
  \<open>cmd_\<close> where the C name is an Isabelle keyword (\<open>in\<close>) or is used by
  \<^verbatim>\<open>struct async\<close> as well. A C string pointer that may be \<^verbatim>\<open>NULL\<close> is an option; the
  \<^verbatim>\<open>NULL\<close>-terminated arrays \<open>argv\<close> and \<open>env\<close> are lists.
\<close>

record child_process =
  cmd_argv :: "string list"
  cmd_pid :: int
  cmd_in :: int
  cmd_out :: int
  cmd_err :: int
  cmd_dir :: "string option"
  cmd_env :: "string list option"
  no_stdin :: bool
  no_stdout :: bool
  no_stderr :: bool
  git_cmd :: bool
  stdout_to_stderr :: bool

section \<open>The wait status and the answers of waitpid\<close>

text \<open>
  The status word that \<^verbatim>\<open>waitpid\<close> stores is a C \<^verbatim>\<open>int\<close>, here a 32-bit word. The macros
  that read it come from the system header \<^verbatim>\<open>sys/wait.h\<close>; they are written here as the C
  library of Linux defines them:
  \<^verbatim>\<open>WTERMSIG(s) = s & 0x7f\<close>, \<^verbatim>\<open>WEXITSTATUS(s) = (s & 0xff00) >> 8\<close>,
  \<^verbatim>\<open>WIFEXITED(s) = (WTERMSIG(s) == 0)\<close> and
  \<^verbatim>\<open>WIFSIGNALED(s) = (((signed char) ((s & 0x7f) + 1) >> 1) > 0)\<close>.
\<close>

type_synonym wstatus = "32 word"

definition WTERMSIG :: "wstatus \<Rightarrow> wstatus" where
  "WTERMSIG s = s AND 0x7f"

definition WEXITSTATUS :: "wstatus \<Rightarrow> int" where
  "WEXITSTATUS s = uint (drop_bit 8 (s AND 0xff00))"

definition WIFEXITED :: "wstatus \<Rightarrow> bool" where
  "WIFEXITED s = (WTERMSIG s = 0)"

definition WIFSIGNALED :: "wstatus \<Rightarrow> bool" where
  "WIFSIGNALED s = (0 < sint (signed_drop_bit 1 (ucast ((s AND 0x7f) + 1) :: 8 word)))"

text \<open>
  The status the kernel reports for a process that called \<^verbatim>\<open>exit(code)\<close>: the low eight
  bits of the code, in bits 8 to 15 (\<^verbatim>\<open>W_EXITCODE(code, 0)\<close>).
\<close>

definition W_EXITCODE :: "int \<Rightarrow> wstatus" where
  "W_EXITCODE code = push_bit 8 (word_of_int code AND 0xff)"

text \<open>
  One answer of \<^verbatim>\<open>waitpid(pid, &status, 0)\<close>: the value returned, the status stored and
  \<^verbatim>\<open>errno\<close> after the call. The answers of the successive calls form a stream: the loop
  of \<open>wait_or_whine\<close> takes one per iteration.
\<close>

record waited =
  wp_ret :: int
  wp_status :: wstatus
  wp_errno :: int

definition EINTR :: int where
  "EINTR = 4"

section \<open>run-command.c: wait_or_whine and finish_command\<close>

text \<open>
  \<open>wait_or_whine\<close> (lines 130 to 154) is \<^verbatim>\<open>for (;;)\<close> around \<^verbatim>\<open>waitpid\<close>; only the
  \<^verbatim>\<open>continue\<close> on \<^verbatim>\<open>EINTR\<close> repeats it. The loop need not end, so the function has an
  option result and \<open>None\<close> is the call that never returns. The call of \<^verbatim>\<open>error\<close> on
  line 139 only prints.
\<close>

partial_function (option) wait_or_whine :: "waited stream \<Rightarrow> int \<Rightarrow> int option" where
  "wait_or_whine answers pid =
     (let waiting = wp_ret (shd answers);
          status = wp_status (shd answers)
      in if waiting < 0 then
           if wp_errno (shd answers) = EINTR then wait_or_whine (stl answers) pid
           else Some (- ERR_RUN_COMMAND_WAITPID)
         else if waiting \<noteq> pid then Some (- ERR_RUN_COMMAND_WAITPID_WRONG_PID)
         else if WIFSIGNALED status then Some (- ERR_RUN_COMMAND_WAITPID_SIGNAL)
         else if \<not> WIFEXITED status then Some (- ERR_RUN_COMMAND_WAITPID_NOEXIT)
         else let code = WEXITSTATUS status
              in if code \<noteq> 0 then Some (- code) else Some 0)"

definition finish_command :: "waited stream \<Rightarrow> child_process \<Rightarrow> int option" where
  "finish_command answers cmd = wait_or_whine answers (cmd_pid cmd)"

text \<open>An interrupted call: \<^verbatim>\<open>waitpid\<close> returned a negative value with \<^verbatim>\<open>errno == EINTR\<close>.\<close>

definition interrupted :: "waited \<Rightarrow> bool" where
  "interrupted a = (wp_ret a < 0 \<and> wp_errno a = EINTR)"

section \<open>The calling process and the kernel\<close>

text \<open>
  run-command.c works through system calls. The model keeps what they act on: the
  descriptor table of the calling process (which open file each descriptor names), its
  working directory and its environment. Three counters record what the process asked of
  the kernel: the children it has forked, the number of \<^verbatim>\<open>pipe\<close> requests it has made and
  the number of pipes it was given.
\<close>

datatype open_file = Null_Device | Pipe_Read nat | Pipe_Write nat | Other_File nat

record process =
  fds :: "int \<Rightarrow> open_file option"
  cwd :: string
  environ :: "string \<Rightarrow> string option"
  children :: "int list"
  pipe_calls :: nat
  pipes_made :: nat

text \<open>
  What the kernel will answer and is not decided by the process: the descriptor limit,
  whether the \<open>n\<close>-th \<^verbatim>\<open>pipe\<close> request finds system resources, whether the null device can
  be opened, the value \<^verbatim>\<open>fork\<close> returns (negative: failure; 0: this is the child; positive:
  this is the parent and the value is the child's id), the directory a path leads to from a
  working directory (if any), and whether an exec of the given kind and arguments succeeds.
\<close>

record kernel =
  nofile :: nat
  pipe_avail :: "nat \<Rightarrow> bool"
  null_avail :: bool
  fork_ret :: int
  lookup_dir :: "string \<Rightarrow> string \<Rightarrow> string option"
  exec_ok :: "bool \<Rightarrow> string list \<Rightarrow> bool"

text \<open>A new descriptor is the lowest one that is not open, below the limit.\<close>

definition lowest_free :: "kernel \<Rightarrow> process \<Rightarrow> int option" where
  "lowest_free k p = find (\<lambda>fd. fds p fd = None) (map int [0..<nofile k])"

text \<open>\<^verbatim>\<open>close(fd)\<close>: a negative or unopened descriptor is an error that changes nothing.\<close>

definition sys_close :: "int \<Rightarrow> process \<Rightarrow> process" where
  "sys_close fd p = (if fd < 0 then p else p\<lparr>fds := (fds p)(fd := None)\<rparr>)"

text \<open>
  \<^verbatim>\<open>dup2(oldfd, newfd)\<close>: \<open>newfd\<close> comes to name the file of \<open>oldfd\<close>; when \<open>oldfd\<close> is not
  open or \<open>newfd\<close> is out of range the call fails and changes nothing. No caller in
  run-command.c reads the result.
\<close>

definition sys_dup2 :: "kernel \<Rightarrow> int \<Rightarrow> int \<Rightarrow> process \<Rightarrow> process" where
  "sys_dup2 k oldfd newfd p =
     (if oldfd < 0 \<or> fds p oldfd = None \<or> newfd < 0 \<or> int (nofile k) \<le> newfd then p
      else p\<lparr>fds := (fds p)(newfd := fds p oldfd)\<rparr>)"

text \<open>\<^verbatim>\<open>open("/dev/null", O_RDWR)\<close>: the new descriptor, or \<open>- 1\<close>.\<close>

definition sys_open_null :: "kernel \<Rightarrow> process \<Rightarrow> int \<times> process" where
  "sys_open_null k p =
     (if null_avail k then
        (case lowest_free k p of
           None \<Rightarrow> (- 1, p)
         | Some fd \<Rightarrow> (fd, p\<lparr>fds := (fds p)(fd \<mapsto> Null_Device)\<rparr>))
      else (- 1, p))"

text \<open>
  \<^verbatim>\<open>pipe(fd)\<close>: \<open>None\<close> when the call fails (it returns a negative value and leaves the
  table alone), else the read end and the write end, each the lowest free descriptor at
  the time it is taken.
\<close>

definition sys_pipe :: "kernel \<Rightarrow> process \<Rightarrow> (int \<times> int) option \<times> process" where
  "sys_pipe k p =
     (let p0 = p\<lparr>pipe_calls := Suc (pipe_calls p)\<rparr>
      in if \<not> pipe_avail k (pipe_calls p) then (None, p0)
         else case lowest_free k p0 of
           None \<Rightarrow> (None, p0)
         | Some r \<Rightarrow>
             (let p1 = p0\<lparr>fds := (fds p0)(r \<mapsto> Pipe_Read (pipes_made p))\<rparr>
              in case lowest_free k p1 of
                None \<Rightarrow> (None, p0)
              | Some w \<Rightarrow>
                  (Some (r, w),
                   p1\<lparr>fds := (fds p1)(w \<mapsto> Pipe_Write (pipes_made p)),
                      pipes_made := Suc (pipes_made p)\<rparr>)))"

text \<open>
  \<^verbatim>\<open>fork()\<close>: on failure nothing changes; in the parent the child is recorded; the child is
  a copy of the parent that has no children of its own.
\<close>

definition sys_fork :: "kernel \<Rightarrow> process \<Rightarrow> int \<times> process" where
  "sys_fork k p =
     (let pid = fork_ret k
      in if pid < 0 then (pid, p)
         else if pid = 0 then (0, p\<lparr>children := []\<rparr>)
         else (pid, p\<lparr>children := children p @ [pid]\<rparr>))"

text \<open>\<^verbatim>\<open>chdir(path)\<close>: 0 and the new working directory, or \<open>- 1\<close>.\<close>

definition sys_chdir :: "kernel \<Rightarrow> string \<Rightarrow> process \<Rightarrow> int \<times> process" where
  "sys_chdir k path p =
     (case lookup_dir k (cwd p) path of
        None \<Rightarrow> (- 1, p)
      | Some d \<Rightarrow> (0, p\<lparr>cwd := d\<rparr>))"

text \<open>
  \<^verbatim>\<open>putenv("NAME=value")\<close> binds the name before the first \<^verbatim>\<open>=\<close> to the text after it;
  \<^verbatim>\<open>unsetenv(name)\<close> removes the name, and fails without effect on an empty name or one with
  an \<^verbatim>\<open>=\<close> in it.
\<close>

definition putenv :: "string \<Rightarrow> process \<Rightarrow> process" where
  "putenv s p =
     p\<lparr>environ := (environ p)(takeWhile (\<lambda>c. c \<noteq> CHR ''='') s \<mapsto>
                                 tl (dropWhile (\<lambda>c. c \<noteq> CHR ''='') s))\<rparr>"

definition unsetenv :: "string \<Rightarrow> process \<Rightarrow> process" where
  "unsetenv name p =
     (if name = [] \<or> CHR ''='' \<in> set name then p
      else p\<lparr>environ := (environ p)(name := None)\<rparr>)"

text \<open>
  How a call ends for the process that made it: it returns a value to its caller (with the
  structure as the call left it), or the process image is replaced by an exec (through the
  git sub-command path or not, with the argument vector), or the process is ended by
  \<^verbatim>\<open>die\<close> or by \<^verbatim>\<open>exit(status)\<close>. Each carries the state of the process at that moment.
\<close>

datatype fatal = Cd_Failed string | Exec_Failed

datatype 'a outcome =
    Returns int 'a process
  | Execs bool "string list" process
  | Dies fatal process
  | Exits int process

primrec proc_of :: "'a outcome \<Rightarrow> process" where
  "proc_of (Returns c x p) = p"
| "proc_of (Execs g args p) = p"
| "proc_of (Dies f p) = p"
| "proc_of (Exits c p) = p"

text \<open>
  \<^verbatim>\<open>struct async\<close> (run-command.h, lines 53 to 62). The producer \<open>proc\<close> gets the
  descriptor and the data and runs in the worker process, whose state it may change (it is
  to close the descriptor); it returns a C \<^verbatim>\<open>int\<close>.
\<close>

record 'd async =
  async_proc :: "int \<Rightarrow> 'd \<Rightarrow> process \<Rightarrow> int \<times> process"
  async_data :: 'd
  async_out :: int
  async_pid :: int

section \<open>run-command.c: launching\<close>

text \<open>Lines 5 to 9 and 11 to 16.\<close>

definition close_pair :: "int \<times> int \<Rightarrow> process \<Rightarrow> process" where
  "close_pair fd p = sys_close (snd fd) (sys_close (fst fd) p)"

definition dup_devnull :: "kernel \<Rightarrow> int \<Rightarrow> process \<Rightarrow> process" where
  "dup_devnull k to p =
     (case sys_open_null k p of
        (fd, p1) \<Rightarrow> sys_close fd (sys_dup2 k fd to p1))"

text \<open>
  The child branch of \<open>start_command\<close>, lines 66 to 111, in the order of the source: the
  wiring of the three streams, the change of directory, the environment loop, the exec.
  \<open>need_in\<close>, \<open>fdin\<close> and the like are the local variables of \<open>start_command\<close>.
\<close>

definition child_stdin :: "kernel \<Rightarrow> child_process \<Rightarrow> bool \<Rightarrow> int \<times> int \<Rightarrow> process \<Rightarrow> process" where
  "child_stdin k cmd need_in fdin p =
     (if no_stdin cmd then dup_devnull k 0 p
      else if need_in then close_pair fdin (sys_dup2 k (fst fdin) 0 p)
      else if cmd_in cmd \<noteq> 0 then sys_close (cmd_in cmd) (sys_dup2 k (cmd_in cmd) 0 p)
      else p)"

definition child_stdout :: "kernel \<Rightarrow> child_process \<Rightarrow> bool \<Rightarrow> int \<times> int \<Rightarrow> process \<Rightarrow> process" where
  "child_stdout k cmd need_out fdout p =
     (if no_stdout cmd then dup_devnull k 1 p
      else if stdout_to_stderr cmd then sys_dup2 k 2 1 p
      else if need_out then close_pair fdout (sys_dup2 k (snd fdout) 1 p)
      else if cmd_out cmd > 1 then sys_close (cmd_out cmd) (sys_dup2 k (cmd_out cmd) 1 p)
      else p)"

definition child_stderr :: "kernel \<Rightarrow> child_process \<Rightarrow> bool \<Rightarrow> int \<times> int \<Rightarrow> process \<Rightarrow> process" where
  "child_stderr k cmd need_err fderr p =
     (if no_stderr cmd then dup_devnull k 2 p
      else if need_err then close_pair fderr (sys_dup2 k (snd fderr) 2 p)
      else p)"

text \<open>The loop of lines 99 to 104 over the entries of \<open>env\<close>.\<close>

fun env_loop :: "string list \<Rightarrow> process \<Rightarrow> process" where
  "env_loop [] p = p"
| "env_loop (e # es) p =
     env_loop es (if CHR ''='' \<in> set e then putenv e p else unsetenv e p)"

text \<open>
  Lines 95 to 111. \<open>execv_git_cmd\<close> (exec_cmd.c) and \<^verbatim>\<open>execvp\<close> do not return when they
  succeed; when they fail the child reaches the \<^verbatim>\<open>die\<close> of line 111.
\<close>

definition child_env_exec :: "kernel \<Rightarrow> child_process \<Rightarrow> process \<Rightarrow> child_process outcome" where
  "child_env_exec k cmd p =
     (let p1 = (case cmd_env cmd of None \<Rightarrow> p | Some es \<Rightarrow> env_loop es p)
      in if exec_ok k (git_cmd cmd) (cmd_argv cmd)
         then Execs (git_cmd cmd) (cmd_argv cmd) p1
         else Dies Exec_Failed p1)"

definition child_exec :: "kernel \<Rightarrow> child_process \<Rightarrow> process \<Rightarrow> child_process outcome" where
  "child_exec k cmd p =
     (case cmd_dir cmd of
        None \<Rightarrow> child_env_exec k cmd p
      | Some d \<Rightarrow>
          (case sys_chdir k d p of
             (failed, p1) \<Rightarrow>
               if failed \<noteq> 0 then Dies (Cd_Failed d) p1
               else child_env_exec k cmd p1))"

definition in_child ::
  "kernel \<Rightarrow> child_process \<Rightarrow> bool \<Rightarrow> int \<times> int \<Rightarrow> bool \<Rightarrow> int \<times> int \<Rightarrow> bool \<Rightarrow> int \<times> int \<Rightarrow>
   process \<Rightarrow> child_process outcome" where
  "in_child k cmd need_in fdin need_out fdout need_err fderr p =
     child_exec k cmd
       (child_stderr k cmd need_err fderr
         (child_stdout k cmd need_out fdout
           (child_stdin k cmd need_in fdin p)))"

text \<open>The parent branch, lines 114 to 127.\<close>

definition in_parent ::
  "child_process \<Rightarrow> bool \<Rightarrow> int \<times> int \<Rightarrow> bool \<Rightarrow> int \<times> int \<Rightarrow> bool \<Rightarrow> int \<times> int \<Rightarrow>
   process \<Rightarrow> child_process outcome" where
  "in_parent cmd need_in fdin need_out fdout need_err fderr p =
     (let p1 = (if need_in then sys_close (fst fdin) p
                else if cmd_in cmd \<noteq> 0 then sys_close (cmd_in cmd) p
                else p);
          p2 = (if need_out then sys_close (snd fdout) p1
                else if cmd_out cmd > 1 then sys_close (cmd_out cmd) p1
                else p1);
          p3 = (if need_err then sys_close (snd fderr) p2 else p2)
      in Returns 0 cmd p3)"

text \<open>
  The arrays \<open>fdin\<close>, \<open>fdout\<close> and \<open>fderr\<close> are not initialised in C; each is read only under
  its \<open>need_\<close> flag, after \<^verbatim>\<open>pipe\<close> has filled it. \<open>no_pipe\<close> stands for the contents of an
  array that was not filled.
\<close>

definition no_pipe :: "int \<times> int" where
  "no_pipe = (- 1, - 1)"

text \<open>
  \<open>start_command\<close>, lines 18 to 128, cut at the three points where the source may return
  early; each definition is the rest of the function from its first line on, and takes the
  local variables set so far. The same text runs in the parent and, after the fork, in the
  child; which of the two the model follows is decided by the value of \<^verbatim>\<open>fork\<close>.
\<close>

text \<open>Lines 54 to 127: the fork, its failure, and the two branches.\<close>

definition start_command_fork ::
  "kernel \<Rightarrow> child_process \<Rightarrow> bool \<Rightarrow> int \<times> int \<Rightarrow> bool \<Rightarrow> int \<times> int \<Rightarrow> bool \<Rightarrow> int \<times> int \<Rightarrow>
   process \<Rightarrow> child_process outcome" where
  "start_command_fork k cmd need_in fdin need_out fdout need_err fderr p =
     (case sys_fork k p of
        (pid, p1) \<Rightarrow>
          (let cmd1 = cmd\<lparr>cmd_pid := pid\<rparr>
           in if pid < 0 then
                (let p2 = (if need_in then close_pair fdin p1 else p1);
                     p3 = (if need_out then close_pair fdout p2 else p2);
                     p4 = (if need_err then close_pair fderr p3 else p3)
                 in Returns (- ERR_RUN_COMMAND_FORK) cmd1 p4)
              else if pid = 0 then
                in_child k cmd1 need_in fdin need_out fdout need_err fderr p1
              else in_parent cmd1 need_in fdin need_out fdout need_err fderr p1))"

text \<open>Lines 42 to 52, then the rest.\<close>

definition start_command_err ::
  "kernel \<Rightarrow> child_process \<Rightarrow> bool \<Rightarrow> int \<times> int \<Rightarrow> bool \<Rightarrow> int \<times> int \<Rightarrow>
   process \<Rightarrow> child_process outcome" where
  "start_command_err k cmd need_in fdin need_out fdout p =
     (let need_err = (\<not> no_stderr cmd \<and> cmd_err cmd < 0)
      in if need_err then
           (case sys_pipe k p of
              (None, p1) \<Rightarrow>
                (let p2 = (if need_in then close_pair fdin p1 else p1);
                     p3 = (if need_out then close_pair fdout p2 else p2)
                 in Returns (- ERR_RUN_COMMAND_PIPE) cmd p3)
            | (Some fderr, p1) \<Rightarrow>
                start_command_fork k (cmd\<lparr>cmd_err := fst fderr\<rparr>)
                  need_in fdin need_out fdout need_err fderr p1)
         else start_command_fork k cmd need_in fdin need_out fdout need_err no_pipe p)"

text \<open>Lines 30 to 40, then the rest.\<close>

definition start_command_out ::
  "kernel \<Rightarrow> child_process \<Rightarrow> bool \<Rightarrow> int \<times> int \<Rightarrow> process \<Rightarrow> child_process outcome" where
  "start_command_out k cmd need_in fdin p =
     (let need_out = (\<not> no_stdout cmd \<and> \<not> stdout_to_stderr cmd \<and> cmd_out cmd < 0)
      in if need_out then
           (case sys_pipe k p of
              (None, p1) \<Rightarrow>
                Returns (- ERR_RUN_COMMAND_PIPE) cmd
                  (if need_in then close_pair fdin p1 else p1)
            | (Some fdout, p1) \<Rightarrow>
                start_command_err k (cmd\<lparr>cmd_out := fst fdout\<rparr>) need_in fdin need_out fdout p1)
         else start_command_err k cmd need_in fdin need_out no_pipe p)"

text \<open>Lines 23 to 28, then the rest.\<close>

definition start_command :: "kernel \<Rightarrow> process \<Rightarrow> child_process \<Rightarrow> child_process outcome" where
  "start_command k p cmd =
     (let need_in = (\<not> no_stdin cmd \<and> cmd_in cmd < 0)
      in if need_in then
           (case sys_pipe k p of
              (None, p1) \<Rightarrow> Returns (- ERR_RUN_COMMAND_PIPE) cmd p1
            | (Some fdin, p1) \<Rightarrow>
                start_command_out k (cmd\<lparr>cmd_in := snd fdin\<rparr>) need_in fdin p1)
         else start_command_out k cmd need_in no_pipe p)"

text \<open>
  \<open>run_command\<close>, lines 161 to 167. \<open>None\<close> is the call that never returns, because the
  wait never does.
\<close>

definition run_command ::
  "kernel \<Rightarrow> waited stream \<Rightarrow> process \<Rightarrow> child_process \<Rightarrow> child_process outcome option" where
  "run_command k answers p cmd =
     (case start_command k p cmd of
        Returns code cmd1 p1 \<Rightarrow>
          if code \<noteq> 0 then Some (Returns code cmd1 p1)
          else map_option (\<lambda>c. Returns c cmd1 p1) (finish_command answers cmd1)
      | Execs g args p1 \<Rightarrow> Some (Execs g args p1)
      | Dies f p1 \<Rightarrow> Some (Dies f p1)
      | Exits c p1 \<Rightarrow> Some (Exits c p1))"

text \<open>
  Lines 169 to 202. \<^verbatim>\<open>memset\<close> clears every field, then \<open>argv\<close> and the three flags are
  set from the arguments. The structure is a local variable of each wrapper; the model
  returns it with the outcome.
\<close>

definition prepare_run_command_v_opt :: "string list \<Rightarrow> int \<Rightarrow> child_process" where
  "prepare_run_command_v_opt argv opt =
     \<lparr>cmd_argv = argv, cmd_pid = 0, cmd_in = 0, cmd_out = 0, cmd_err = 0,
      cmd_dir = None, cmd_env = None,
      no_stdin = (opt AND RUN_COMMAND_NO_STDIN \<noteq> 0),
      no_stdout = False, no_stderr = False,
      git_cmd = (opt AND RUN_GIT_CMD \<noteq> 0),
      stdout_to_stderr = (opt AND RUN_COMMAND_STDOUT_TO_STDERR \<noteq> 0)\<rparr>"

definition run_command_v_opt ::
  "kernel \<Rightarrow> waited stream \<Rightarrow> process \<Rightarrow> string list \<Rightarrow> int \<Rightarrow> child_process outcome option" where
  "run_command_v_opt k answers p argv opt =
     run_command k answers p (prepare_run_command_v_opt argv opt)"

definition run_command_v_opt_cd ::
  "kernel \<Rightarrow> waited stream \<Rightarrow> process \<Rightarrow> string list \<Rightarrow> int \<Rightarrow> string option \<Rightarrow>
   child_process outcome option" where
  "run_command_v_opt_cd k answers p argv opt dir =
     run_command k answers p ((prepare_run_command_v_opt argv opt)\<lparr>cmd_dir := dir\<rparr>)"

definition run_command_v_opt_cd_env ::
  "kernel \<Rightarrow> waited stream \<Rightarrow> process \<Rightarrow> string list \<Rightarrow> int \<Rightarrow> string option \<Rightarrow>
   string list option \<Rightarrow> child_process outcome option" where
  "run_command_v_opt_cd_env k answers p argv opt dir env =
     run_command k answers p
       ((prepare_run_command_v_opt argv opt)\<lparr>cmd_dir := dir, cmd_env := env\<rparr>)"

section \<open>run-command.c: the async worker\<close>

text \<open>
  Modelled from the spec: \<open>error\<close> (usage.c) is not under src/. It prints the message and
  its result is the failure value its caller passes on: a worker failure is reported to the
  caller as a negative value, the \<open>- 1\<close> that line 215 returns in its own right.
\<close>

definition error :: "string \<Rightarrow> int" where
  "error msg = - 1"

text \<open>\<open>start_async\<close>, lines 204 to 224, and \<open>finish_async\<close>, lines 226 to 233.\<close>

definition start_async :: "kernel \<Rightarrow> process \<Rightarrow> 'd async \<Rightarrow> 'd async outcome" where
  "start_async k p async =
     (case sys_pipe k p of
        (None, p1) \<Rightarrow> Returns (error ''cannot create pipe'') async p1
      | (Some pipe_out, p1) \<Rightarrow>
          (case sys_fork k p1 of
             (pid, p2) \<Rightarrow>
               (let async1 = async\<lparr>async_pid := pid\<rparr>
                in if pid < 0 then Returns (- 1) async1 (close_pair pipe_out p2)
                   else if pid = 0 then
                     (case async_proc async1 (snd pipe_out) (async_data async1)
                             (sys_close (fst pipe_out) p2) of
                        (r, p3) \<Rightarrow> Exits (if r \<noteq> 0 then 1 else 0) p3)
                   else Returns 0 (async1\<lparr>async_out := fst pipe_out\<rparr>)
                          (sys_close (snd pipe_out) p2))))"

definition finish_async :: "waited stream \<Rightarrow> 'd async \<Rightarrow> int option" where
  "finish_async answers async =
     map_option (\<lambda>c. if c \<noteq> 0 then error ''waitpid (async) failed'' else 0)
       (wait_or_whine answers (async_pid async))"

section \<open>Relations used in the proofs\<close>

text \<open>
  \<open>pipe_taken need fd p p'\<close>: the process \<open>p'\<close> is \<open>p\<close> after the step
  \<^verbatim>\<open>if (need) pipe(fd)\<close> has gone through: with \<open>need\<close>, the two descriptors were free and
  now name the ends of a new pipe; without it nothing happened.
\<close>

definition pipe_taken :: "bool \<Rightarrow> int \<times> int \<Rightarrow> process \<Rightarrow> process \<Rightarrow> bool" where
  "pipe_taken need fd p p' =
     (if need then
        fds p (fst fd) = None \<and> fds p (snd fd) = None \<and> fst fd \<noteq> snd fd
        \<and> 0 \<le> fst fd \<and> 0 \<le> snd fd
        \<and> p' = p\<lparr>fds := (fds p)(fst fd \<mapsto> Pipe_Read (pipes_made p),
                                   snd fd \<mapsto> Pipe_Write (pipes_made p)),
                  pipe_calls := Suc (pipe_calls p), pipes_made := Suc (pipes_made p)\<rparr>
      else p' = p)"

text \<open>What a launch that gives up on a pipe leaves behind, relative to the process at entry.\<close>

definition gave_up :: "process \<Rightarrow> child_process outcome \<Rightarrow> bool" where
  "gave_up p out =
     (\<exists>cmd' p'. out = Returns (- ERR_RUN_COMMAND_PIPE) cmd' p'
        \<and> fds p' = fds p \<and> cwd p' = cwd p \<and> environ p' = environ p \<and> children p' = children p
        \<and> pipes_made p' - pipes_made p < pipe_calls p' - pipe_calls p)"

text \<open>
  The number of \<^verbatim>\<open>pipe\<close> requests the kernel refused between two states of a process.
\<close>

definition failed_pipe_requests :: "process \<Rightarrow> process \<Rightarrow> nat" where
  "failed_pipe_requests p p' = (pipe_calls p' - pipe_calls p) - (pipes_made p' - pipes_made p)"

text \<open>How a call ended, without the state it left.\<close>

datatype ending = Returned int | Replaced bool "string list" | Died fatal | Exited int

primrec ending_of :: "'a outcome \<Rightarrow> ending" where
  "ending_of (Returns c x p) = Returned c"
| "ending_of (Execs g args p) = Replaced g args"
| "ending_of (Dies f p) = Died f"
| "ending_of (Exits c p) = Exited c"

section \<open>Concrete inputs\<close>

text \<open>
  A process with the three standard descriptors open and nothing else, a kernel with a
  given descriptor limit and a given answer to \<^verbatim>\<open>fork\<close> (pipes and the null device are
  available, \<^verbatim>\<open>/tmp\<close> is the only directory, every exec succeeds), and a cleared
  \<open>child_process\<close> for the program \<^verbatim>\<open>true\<close>.
\<close>

definition std_process :: process where
  "std_process =
     \<lparr>fds = [0 \<mapsto> Other_File 0, 1 \<mapsto> Other_File 1, 2 \<mapsto> Other_File 2],
      cwd = ''/'', environ = Map.empty, children = [], pipe_calls = 0, pipes_made = 0\<rparr>"

definition std_kernel :: "nat \<Rightarrow> int \<Rightarrow> kernel" where
  "std_kernel limit pid =
     \<lparr>nofile = limit, pipe_avail = (\<lambda>n. True), null_avail = True, fork_ret = pid,
      lookup_dir = (\<lambda>wd path. if path = ''/tmp'' then Some path else None),
      exec_ok = (\<lambda>g args. True)\<rparr>"

definition plain_cmd :: child_process where
  "plain_cmd =
     \<lparr>cmd_argv = [''true''], cmd_pid = 0, cmd_in = 0, cmd_out = 0, cmd_err = 0,
      cmd_dir = None, cmd_env = None, no_stdin = False, no_stdout = False,
      no_stderr = False, git_cmd = False, stdout_to_stderr = False\<rparr>"

section \<open>The environment list as the spec words it\<close>

text \<open>
  One entry applied to an environment, in the words of the spec: \<^verbatim>\<open>"KEY=VALUE"\<close> sets,
  a bare \<^verbatim>\<open>"KEY"\<close> unsets. The source is \<open>env_loop\<close> with \<open>putenv\<close> and \<open>unsetenv\<close>; the
  two are compared below.
\<close>

definition apply_entry :: "string \<Rightarrow> (string \<Rightarrow> string option) \<Rightarrow> (string \<Rightarrow> string option)" where
  "apply_entry e env =
     (if CHR ''='' \<in> set e
      then env(takeWhile (\<lambda>c. c \<noteq> CHR ''='') e \<mapsto> tl (dropWhile (\<lambda>c. c \<noteq> CHR ''='') e))
      else if e = [] then env
      else env(e := None))"

section \<open>The fatal handler\<close>

text \<open>
  Modelled from the spec: \<open>die\<close> (usage.c) is not under src/. The fatal handler
  "terminates the calling process immediately", and child-side fatal termination is "an
  explicit, immediate process exit with a reserved, distinguishable status code". So a
  process ended by \<open>die\<close> has the wait status of an exit with the reserved code; the code is
  a parameter, since the spec names no number.
\<close>

definition died_status :: "int \<Rightarrow> wstatus" where
  "died_status reserved = W_EXITCODE reserved"

text \<open>The structure a call returned with, if it returned.\<close>

primrec returned :: "'a outcome \<Rightarrow> 'a option" where
  "returned (Returns c x p) = Some x"
| "returned (Execs g args p) = None"
| "returned (Dies f p) = None"
| "returned (Exits c p) = None"

text \<open>
  A producer for the examples: it closes its descriptor, as the header asks, and returns
  its data as its status.
\<close>

definition closing_producer :: "int \<Rightarrow> int \<Rightarrow> process \<Rightarrow> int \<times> process" where
  "closing_producer fd data p = (data, sys_close fd p)"

text \<open>What of an outcome does not depend on the \<open>err\<close> field of the structure returned.\<close>

definition but_err :: "child_process outcome \<Rightarrow> ending \<times> process \<times> child_process option" where
  "but_err out = (ending_of out, proc_of out, map_option (\<lambda>c. c\<lparr>cmd_err := 0\<rparr>) (returned out))"

text \<open>A process with one more descriptor open, on a file of its own.\<close>

definition open_also :: "int \<Rightarrow> process \<Rightarrow> process" where
  "open_also fd p = p\<lparr>fds := (fds p)(fd \<mapsto> Other_File (nat fd))\<rparr>"

section \<open>Facts about the system calls\<close>

lemmas ERR_defs =
  ERR_RUN_COMMAND_FORK_def ERR_RUN_COMMAND_EXEC_def ERR_RUN_COMMAND_PIPE_def
  ERR_RUN_COMMAND_WAITPID_def ERR_RUN_COMMAND_WAITPID_WRONG_PID_def
  ERR_RUN_COMMAND_WAITPID_SIGNAL_def ERR_RUN_COMMAND_WAITPID_NOEXIT_def

lemma lowest_free_Some:
  "lowest_free k p = Some f \<Longrightarrow> fds p f = None \<and> 0 \<le> f \<and> f < int (nofile k)"
  by (auto simp: lowest_free_def find_Some_iff)

lemma sys_close_fields [simp]:
  "cwd (sys_close fd p) = cwd p"
  "environ (sys_close fd p) = environ p"
  "children (sys_close fd p) = children p"
  "pipe_calls (sys_close fd p) = pipe_calls p"
  "pipes_made (sys_close fd p) = pipes_made p"
  by (simp_all add: sys_close_def)

lemma fds_sys_close:
  "fds (sys_close fd p) x = (if 0 \<le> fd \<and> x = fd then None else fds p x)"
  by (simp add: sys_close_def)

lemma sys_dup2_fields [simp]:
  "cwd (sys_dup2 k a b p) = cwd p"
  "environ (sys_dup2 k a b p) = environ p"
  "children (sys_dup2 k a b p) = children p"
  "pipe_calls (sys_dup2 k a b p) = pipe_calls p"
  "pipes_made (sys_dup2 k a b p) = pipes_made p"
  by (simp_all add: sys_dup2_def)

lemma fds_sys_dup2_other:
  "x \<noteq> b \<Longrightarrow> fds (sys_dup2 k a b p) x = fds p x"
  by (simp add: sys_dup2_def)

lemma fds_sys_dup2_target:
  "0 \<le> a \<Longrightarrow> fds p a = Some f \<Longrightarrow> 0 \<le> b \<Longrightarrow> b < int (nofile k) \<Longrightarrow>
   fds (sys_dup2 k a b p) b = Some f"
  by (simp add: sys_dup2_def)

lemma close_pair_fields [simp]:
  "cwd (close_pair fd p) = cwd p"
  "environ (close_pair fd p) = environ p"
  "children (close_pair fd p) = children p"
  "pipe_calls (close_pair fd p) = pipe_calls p"
  "pipes_made (close_pair fd p) = pipes_made p"
  by (simp_all add: close_pair_def)

lemma fds_close_pair:
  "fds (close_pair fd p) x =
     (if (0 \<le> fst fd \<and> x = fst fd) \<or> (0 \<le> snd fd \<and> x = snd fd) then None else fds p x)"
  by (simp add: close_pair_def fds_sys_close)

lemma dup_devnull_fields [simp]:
  "cwd (dup_devnull k to p) = cwd p"
  "environ (dup_devnull k to p) = environ p"
  "children (dup_devnull k to p) = children p"
  "pipe_calls (dup_devnull k to p) = pipe_calls p"
  "pipes_made (dup_devnull k to p) = pipes_made p"
  by (simp_all add: dup_devnull_def sys_open_null_def split: option.splits)

lemma fds_dup_devnull_other:
  "x \<noteq> to \<Longrightarrow> fds (dup_devnull k to p) x = fds p x"
  by (auto simp: dup_devnull_def sys_open_null_def sys_dup2_def sys_close_def
      split: option.splits dest: lowest_free_Some)

lemma fds_dup_devnull_target:
  assumes "null_avail k" and "lowest_free k p \<noteq> None" and "fds p to \<noteq> None"
    and "0 \<le> to" and "to < int (nofile k)"
  shows "fds (dup_devnull k to p) to = Some Null_Device"
  using assms
  by (auto simp: dup_devnull_def sys_open_null_def sys_dup2_def sys_close_def
      split: option.splits dest: lowest_free_Some)

lemma sys_pipe_None:
  "sys_pipe k p = (None, p') \<Longrightarrow> p' = p\<lparr>pipe_calls := Suc (pipe_calls p)\<rparr>"
  by (auto simp: sys_pipe_def Let_def split: if_splits option.splits)

lemma sys_pipe_Some:
  assumes "sys_pipe k p = (Some (r, w), p')"
  shows "fds p r = None \<and> fds p w = None \<and> r \<noteq> w \<and> 0 \<le> r \<and> 0 \<le> w
         \<and> p' = p\<lparr>fds := (fds p)(r \<mapsto> Pipe_Read (pipes_made p), w \<mapsto> Pipe_Write (pipes_made p)),
                   pipe_calls := Suc (pipe_calls p), pipes_made := Suc (pipes_made p)\<rparr>"
  using assms
  by (auto simp: sys_pipe_def Let_def split: if_splits option.splits dest!: lowest_free_Some)

lemma putenv_fields [simp]:
  "fds (putenv s p) = fds p" "cwd (putenv s p) = cwd p" "children (putenv s p) = children p"
  "pipe_calls (putenv s p) = pipe_calls p" "pipes_made (putenv s p) = pipes_made p"
  by (simp_all add: putenv_def)

lemma unsetenv_fields [simp]:
  "fds (unsetenv s p) = fds p" "cwd (unsetenv s p) = cwd p" "children (unsetenv s p) = children p"
  "pipe_calls (unsetenv s p) = pipe_calls p" "pipes_made (unsetenv s p) = pipes_made p"
  by (simp_all add: unsetenv_def)

lemma env_loop_fields [simp]:
  "fds (env_loop es p) = fds p" "cwd (env_loop es p) = cwd p"
  "children (env_loop es p) = children p"
  "pipe_calls (env_loop es p) = pipe_calls p" "pipes_made (env_loop es p) = pipes_made p"
  by (induction es arbitrary: p) simp_all

lemma child_env_exec_fields [simp]:
  "fds (proc_of (child_env_exec k cmd p)) = fds p"
  "cwd (proc_of (child_env_exec k cmd p)) = cwd p"
  "children (proc_of (child_env_exec k cmd p)) = children p"
  "pipe_calls (proc_of (child_env_exec k cmd p)) = pipe_calls p"
  "pipes_made (proc_of (child_env_exec k cmd p)) = pipes_made p"
  by (simp_all add: child_env_exec_def Let_def split: option.splits)

lemma child_exec_fields [simp]:
  "fds (proc_of (child_exec k cmd p)) = fds p"
  "children (proc_of (child_exec k cmd p)) = children p"
  "pipe_calls (proc_of (child_exec k cmd p)) = pipe_calls p"
  "pipes_made (proc_of (child_exec k cmd p)) = pipes_made p"
  by (simp_all add: child_exec_def sys_chdir_def split: option.splits)

lemma child_stdin_fields [simp]:
  "cwd (child_stdin k cmd n fd p) = cwd p"
  "environ (child_stdin k cmd n fd p) = environ p"
  "children (child_stdin k cmd n fd p) = children p"
  "pipe_calls (child_stdin k cmd n fd p) = pipe_calls p"
  "pipes_made (child_stdin k cmd n fd p) = pipes_made p"
  by (simp_all add: child_stdin_def)

lemma child_stdout_fields [simp]:
  "cwd (child_stdout k cmd n fd p) = cwd p"
  "environ (child_stdout k cmd n fd p) = environ p"
  "children (child_stdout k cmd n fd p) = children p"
  "pipe_calls (child_stdout k cmd n fd p) = pipe_calls p"
  "pipes_made (child_stdout k cmd n fd p) = pipes_made p"
  by (simp_all add: child_stdout_def)

lemma child_stderr_fields [simp]:
  "cwd (child_stderr k cmd n fd p) = cwd p"
  "environ (child_stderr k cmd n fd p) = environ p"
  "children (child_stderr k cmd n fd p) = children p"
  "pipe_calls (child_stderr k cmd n fd p) = pipe_calls p"
  "pipes_made (child_stderr k cmd n fd p) = pipes_made p"
  by (simp_all add: child_stderr_def)

lemma in_child_fields [simp]:
  "children (proc_of (in_child k cmd ni fi no fo ne fe p)) = children p"
  "pipe_calls (proc_of (in_child k cmd ni fi no fo ne fe p)) = pipe_calls p"
  "pipes_made (proc_of (in_child k cmd ni fi no fo ne fe p)) = pipes_made p"
  by (simp_all add: in_child_def)

lemma in_child_not_Returns [simp]:
  "in_child k cmd ni fi no fo ne fe p \<noteq> Returns c cmd' p'"
  by (simp add: in_child_def child_exec_def child_env_exec_def Let_def split: option.splits prod.splits)

lemma in_parent_fields [simp]:
  "cwd (proc_of (in_parent cmd ni fi no fo ne fe p)) = cwd p"
  "environ (proc_of (in_parent cmd ni fi no fo ne fe p)) = environ p"
  "children (proc_of (in_parent cmd ni fi no fo ne fe p)) = children p"
  "pipe_calls (proc_of (in_parent cmd ni fi no fo ne fe p)) = pipe_calls p"
  "pipes_made (proc_of (in_parent cmd ni fi no fo ne fe p)) = pipes_made p"
  by (simp_all add: in_parent_def Let_def)

lemma in_parent_Returns:
  "in_parent cmd ni fi no fo ne fe p = Returns c cmd' p' \<Longrightarrow> c = 0 \<and> cmd' = cmd"
  by (simp add: in_parent_def Let_def)

lemma pipe_taken_fields:
  assumes "pipe_taken need fd p p'"
  shows "cwd p' = cwd p" "environ p' = environ p" "children p' = children p"
    "pipe_calls p' = pipe_calls p + of_bool need" "pipes_made p' = pipes_made p + of_bool need"
  using assms by (auto simp: pipe_taken_def split: if_splits)

lemma pipe_taken_keeps: "pipe_taken need fd p p' \<Longrightarrow> fds p x \<noteq> None \<Longrightarrow> fds p' x = fds p x"
  by (auto simp: pipe_taken_def split: if_splits)

lemma pipe_taken_release:
  "pipe_taken need fd p p' \<Longrightarrow> fds q = fds p' \<Longrightarrow>
   fds (if need then close_pair fd q else q) = fds p"
  by (auto simp: pipe_taken_def fun_eq_iff fds_close_pair split: if_splits)

lemma release_cong:
  "fds q = fds q' \<Longrightarrow>
   fds (if n then close_pair f q else q) = fds (if n then close_pair f q' else q')"
  by (auto simp: fun_eq_iff fds_close_pair)

lemma release_commute:
  "fds (if n then close_pair f (if m then close_pair g q else q) else (if m then close_pair g q else q))
   = fds (if m then close_pair g (if n then close_pair f q else q) else (if n then close_pair f q else q))"
  by (auto simp: fun_eq_iff fds_close_pair)

lemma pipe_taken_release2:
  assumes "pipe_taken n1 f1 p p1" and "pipe_taken n2 f2 p1 p2" and "fds q = fds p2"
  shows "fds (if n2 then close_pair f2 (if n1 then close_pair f1 q else q)
              else (if n1 then close_pair f1 q else q)) = fds p"
proof -
  have "fds (if n2 then close_pair f2 q else q) = fds p1"
    using assms(2,3) by (rule pipe_taken_release)
  then have "fds (if n1 then close_pair f1 (if n2 then close_pair f2 q else q)
                  else (if n2 then close_pair f2 q else q)) = fds p"
    using assms(1) by (rule pipe_taken_release [rotated])
  then show ?thesis
    by (simp only: release_commute [of n2 f2 n1 f1 q])
qed

lemma pipe_taken_release3:
  assumes "pipe_taken n1 f1 p p1" and "pipe_taken n2 f2 p1 p2" and "pipe_taken n3 f3 p2 p3"
    and "fds q = fds p3"
  shows "fds (if n3 then close_pair f3 (if n2 then close_pair f2 (if n1 then close_pair f1 q else q)
                  else (if n1 then close_pair f1 q else q))
              else (if n2 then close_pair f2 (if n1 then close_pair f1 q else q)
                  else (if n1 then close_pair f1 q else q))) = fds p"
proof -
  let ?q3 = "if n3 then close_pair f3 q else q"
  let ?q1 = "if n1 then close_pair f1 q else q"
  let ?q21 = "if n2 then close_pair f2 ?q1 else ?q1"
  have "fds ?q3 = fds p2"
    using assms(3,4) by (rule pipe_taken_release)
  with assms(1,2)
  have a: "fds (if n2 then close_pair f2 (if n1 then close_pair f1 ?q3 else ?q3)
              else (if n1 then close_pair f1 ?q3 else ?q3)) = fds p"
    by (rule pipe_taken_release2)
  have "fds (if n1 then close_pair f1 ?q3 else ?q3) = fds (if n3 then close_pair f3 ?q1 else ?q1)"
    by (rule release_commute)
  then have "fds (if n2 then close_pair f2 (if n1 then close_pair f1 ?q3 else ?q3)
              else (if n1 then close_pair f1 ?q3 else ?q3))
           = fds (if n2 then close_pair f2 (if n3 then close_pair f3 ?q1 else ?q1)
              else (if n3 then close_pair f3 ?q1 else ?q1))"
    by (rule release_cong)
  also have "\<dots> = fds (if n3 then close_pair f3 ?q21 else ?q21)"
    by (rule release_commute)
  finally show ?thesis
    using a by simp
qed

text \<open>The pipe and descriptor calls do not read the answers about directories and forks.\<close>

lemma lowest_free_lookup_dir [simp]: "lowest_free (k\<lparr>lookup_dir := l\<rparr>) p = lowest_free k p"
  by (simp add: lowest_free_def)

lemma sys_pipe_lookup_dir [simp]: "sys_pipe (k\<lparr>lookup_dir := l\<rparr>) p = sys_pipe k p"
  by (simp add: sys_pipe_def Let_def split: option.splits)

lemma lowest_free_fork_ret [simp]: "lowest_free (k\<lparr>fork_ret := n\<rparr>) p = lowest_free k p"
  by (simp add: lowest_free_def)

lemma sys_pipe_fork_ret [simp]: "sys_pipe (k\<lparr>fork_ret := n\<rparr>) p = sys_pipe k p"
  by (simp add: sys_pipe_def Let_def split: option.splits)

section \<open>The allocation of pipes\<close>

lemma pipe_taken_True: "sys_pipe k p = (Some fd, p') \<Longrightarrow> pipe_taken True fd p p'"
  using sys_pipe_Some [of k p "fst fd" "snd fd" p'] by (simp add: pipe_taken_def)

lemma pipe_taken_False: "pipe_taken False fd p p"
  by (simp add: pipe_taken_def)

lemma release_fields [simp]:
  "cwd (if n then close_pair f q else q) = cwd q"
  "environ (if n then close_pair f q else q) = environ q"
  "children (if n then close_pair f q else q) = children q"
  "pipe_calls (if n then close_pair f q else q) = pipe_calls q"
  "pipes_made (if n then close_pair f q else q) = pipes_made q"
  by simp_all

lemma start_command_fork_eq:
  "start_command_fork k cmd ni fi no fo ne fe p =
     (if fork_ret k < 0 then
        Returns (- ERR_RUN_COMMAND_FORK) (cmd\<lparr>cmd_pid := fork_ret k\<rparr>)
          (if ne then close_pair fe (if no then close_pair fo (if ni then close_pair fi p else p)
                                     else (if ni then close_pair fi p else p))
           else (if no then close_pair fo (if ni then close_pair fi p else p)
                 else (if ni then close_pair fi p else p)))
      else if fork_ret k = 0 then
        in_child k (cmd\<lparr>cmd_pid := 0\<rparr>) ni fi no fo ne fe (p\<lparr>children := []\<rparr>)
      else in_parent (cmd\<lparr>cmd_pid := fork_ret k\<rparr>) ni fi no fo ne fe
             (p\<lparr>children := children p @ [fork_ret k]\<rparr>))"
  by (simp add: start_command_fork_def sys_fork_def Let_def)

lemma err_stage:
  assumes t1: "pipe_taken n1 f1 p p1" and t2: "pipe_taken n2 f2 p1 p2"
    and ne: "ne = (\<not> no_stderr cmd \<and> cmd_err cmd < 0)"
  shows "gave_up p (start_command_err k cmd n1 f1 n2 f2 p2)
       \<or> (\<exists>fderr p3. pipe_taken ne fderr p2 p3
            \<and> start_command_err k cmd n1 f1 n2 f2 p2 =
                start_command_fork k (cmd\<lparr>cmd_err := (if ne then fst fderr else cmd_err cmd)\<rparr>)
                  n1 f1 n2 f2 ne fderr p3)"
proof (cases ne)
  case False
  then have "start_command_err k cmd n1 f1 n2 f2 p2 =
      start_command_fork k cmd n1 f1 n2 f2 False no_pipe p2"
    by (simp add: start_command_err_def ne [symmetric])
  then have "pipe_taken ne no_pipe p2 p2
      \<and> start_command_err k cmd n1 f1 n2 f2 p2 =
          start_command_fork k (cmd\<lparr>cmd_err := (if ne then fst no_pipe else cmd_err cmd)\<rparr>)
            n1 f1 n2 f2 ne no_pipe p2"
    using False by (simp add: pipe_taken_False)
  then show ?thesis
    by blast
next
  case need: True
  obtain res p3 where sp: "sys_pipe k p2 = (res, p3)"
    by (cases "sys_pipe k p2")
  show ?thesis
  proof (cases res)
    case None
    with sp have p3: "p3 = p2\<lparr>pipe_calls := Suc (pipe_calls p2)\<rparr>"
      by (auto dest: sys_pipe_None)
    let ?p' = "if n2 then close_pair f2 (if n1 then close_pair f1 p3 else p3)
               else (if n1 then close_pair f1 p3 else p3)"
    have out: "start_command_err k cmd n1 f1 n2 f2 p2 = Returns (- ERR_RUN_COMMAND_PIPE) cmd ?p'"
      using need sp None by (simp add: start_command_err_def Let_def ne [symmetric])
    have "fds p3 = fds p2"
      by (simp add: p3)
    with t1 t2 have "fds ?p' = fds p"
      by (rule pipe_taken_release2)
    moreover have "cwd ?p' = cwd p" "environ ?p' = environ p" "children ?p' = children p"
      "pipe_calls ?p' = Suc (pipe_calls p + of_bool n1 + of_bool n2)"
      "pipes_made ?p' = pipes_made p + of_bool n1 + of_bool n2"
      using pipe_taken_fields [OF t1] pipe_taken_fields [OF t2]
      by (simp_all add: p3)
    ultimately have "gave_up p (start_command_err k cmd n1 f1 n2 f2 p2)"
      unfolding gave_up_def out by (intro exI [of _ cmd] exI [of _ ?p']) simp
    then show ?thesis ..
  next
    case (Some fderr)
    with sp have "pipe_taken True fderr p2 p3"
      by (simp add: pipe_taken_True)
    moreover have "start_command_err k cmd n1 f1 n2 f2 p2 =
        start_command_fork k (cmd\<lparr>cmd_err := fst fderr\<rparr>) n1 f1 n2 f2 True fderr p3"
      using need sp Some by (simp add: start_command_err_def ne [symmetric])
    ultimately have "pipe_taken ne fderr p2 p3
      \<and> start_command_err k cmd n1 f1 n2 f2 p2 =
          start_command_fork k (cmd\<lparr>cmd_err := (if ne then fst fderr else cmd_err cmd)\<rparr>)
            n1 f1 n2 f2 ne fderr p3"
      using need by simp
    then show ?thesis
      by blast
  qed
qed

lemma out_stage:
  assumes t1: "pipe_taken n1 f1 p p1"
    and no: "no = (\<not> no_stdout cmd \<and> \<not> stdout_to_stderr cmd \<and> cmd_out cmd < 0)"
  shows "gave_up p (start_command_out k cmd n1 f1 p1)
       \<or> (\<exists>fdout p2. pipe_taken no fdout p1 p2
            \<and> start_command_out k cmd n1 f1 p1 =
                start_command_err k (cmd\<lparr>cmd_out := (if no then fst fdout else cmd_out cmd)\<rparr>)
                  n1 f1 no fdout p2)"
proof (cases no)
  case False
  then have "start_command_out k cmd n1 f1 p1 = start_command_err k cmd n1 f1 False no_pipe p1"
    by (simp add: start_command_out_def no [symmetric])
  then have "pipe_taken no no_pipe p1 p1
      \<and> start_command_out k cmd n1 f1 p1 =
          start_command_err k (cmd\<lparr>cmd_out := (if no then fst no_pipe else cmd_out cmd)\<rparr>)
            n1 f1 no no_pipe p1"
    using False by (simp add: pipe_taken_False)
  then show ?thesis
    by blast
next
  case need: True
  obtain res p2 where sp: "sys_pipe k p1 = (res, p2)"
    by (cases "sys_pipe k p1")
  show ?thesis
  proof (cases res)
    case None
    with sp have p2: "p2 = p1\<lparr>pipe_calls := Suc (pipe_calls p1)\<rparr>"
      by (auto dest: sys_pipe_None)
    let ?p' = "if n1 then close_pair f1 p2 else p2"
    have out: "start_command_out k cmd n1 f1 p1 = Returns (- ERR_RUN_COMMAND_PIPE) cmd ?p'"
      using need sp None by (simp add: start_command_out_def Let_def no [symmetric])
    have "fds p2 = fds p1"
      by (simp add: p2)
    with t1 have "fds ?p' = fds p"
      by (rule pipe_taken_release)
    moreover have "cwd ?p' = cwd p" "environ ?p' = environ p" "children ?p' = children p"
      "pipe_calls ?p' = Suc (pipe_calls p + of_bool n1)"
      "pipes_made ?p' = pipes_made p + of_bool n1"
      using pipe_taken_fields [OF t1]
      by (simp_all add: p2)
    ultimately have "gave_up p (start_command_out k cmd n1 f1 p1)"
      unfolding gave_up_def out by (intro exI [of _ cmd] exI [of _ ?p']) simp
    then show ?thesis ..
  next
    case (Some fdout)
    with sp have "pipe_taken True fdout p1 p2"
      by (simp add: pipe_taken_True)
    moreover have "start_command_out k cmd n1 f1 p1 =
        start_command_err k (cmd\<lparr>cmd_out := fst fdout\<rparr>) n1 f1 True fdout p2"
      using need sp Some by (simp add: start_command_out_def no [symmetric])
    ultimately have "pipe_taken no fdout p1 p2
      \<and> start_command_out k cmd n1 f1 p1 =
          start_command_err k (cmd\<lparr>cmd_out := (if no then fst fdout else cmd_out cmd)\<rparr>)
            n1 f1 no fdout p2"
      using need by simp
    then show ?thesis
      by blast
  qed
qed

lemma in_stage:
  assumes ni: "ni = (\<not> no_stdin cmd \<and> cmd_in cmd < 0)"
  shows "gave_up p (start_command k p cmd)
       \<or> (\<exists>fdin p1. pipe_taken ni fdin p p1
            \<and> start_command k p cmd =
                start_command_out k (cmd\<lparr>cmd_in := (if ni then snd fdin else cmd_in cmd)\<rparr>)
                  ni fdin p1)"
proof (cases ni)
  case False
  then have "start_command k p cmd = start_command_out k cmd False no_pipe p"
    by (simp add: start_command_def ni [symmetric])
  then have "pipe_taken ni no_pipe p p
      \<and> start_command k p cmd =
          start_command_out k (cmd\<lparr>cmd_in := (if ni then snd no_pipe else cmd_in cmd)\<rparr>)
            ni no_pipe p"
    using False by (simp add: pipe_taken_False)
  then show ?thesis
    by blast
next
  case need: True
  obtain res p1 where sp: "sys_pipe k p = (res, p1)"
    by (cases "sys_pipe k p")
  show ?thesis
  proof (cases res)
    case None
    with sp have p1: "p1 = p\<lparr>pipe_calls := Suc (pipe_calls p)\<rparr>"
      by (auto dest: sys_pipe_None)
    have out: "start_command k p cmd = Returns (- ERR_RUN_COMMAND_PIPE) cmd p1"
      using need sp None by (simp add: start_command_def Let_def ni [symmetric])
    have "gave_up p (start_command k p cmd)"
      unfolding gave_up_def out by (intro exI [of _ cmd] exI [of _ p1]) (simp add: p1)
    then show ?thesis ..
  next
    case (Some fdin)
    with sp have "pipe_taken True fdin p p1"
      by (simp add: pipe_taken_True)
    moreover have "start_command k p cmd =
        start_command_out k (cmd\<lparr>cmd_in := snd fdin\<rparr>) True fdin p1"
      using need sp Some by (simp add: start_command_def ni [symmetric])
    ultimately have "pipe_taken ni fdin p p1
      \<and> start_command k p cmd =
          start_command_out k (cmd\<lparr>cmd_in := (if ni then snd fdin else cmd_in cmd)\<rparr>)
            ni fdin p1"
      using need by simp
    then show ?thesis
      by blast
  qed
qed

text \<open>
  Every launch either gives up on a pipe, or takes the pipes it needs and goes on to fork.
\<close>

lemma start_command_char:
  assumes ni: "ni = (\<not> no_stdin cmd \<and> cmd_in cmd < 0)"
    and no: "no = (\<not> no_stdout cmd \<and> \<not> stdout_to_stderr cmd \<and> cmd_out cmd < 0)"
    and ne: "ne = (\<not> no_stderr cmd \<and> cmd_err cmd < 0)"
  shows "gave_up p (start_command k p cmd)
       \<or> (\<exists>fdin fdout fderr p1 p2 p3.
            pipe_taken ni fdin p p1 \<and> pipe_taken no fdout p1 p2 \<and> pipe_taken ne fderr p2 p3
            \<and> start_command k p cmd =
                start_command_fork k
                  (cmd\<lparr>cmd_in := (if ni then snd fdin else cmd_in cmd),
                       cmd_out := (if no then fst fdout else cmd_out cmd),
                       cmd_err := (if ne then fst fderr else cmd_err cmd)\<rparr>)
                  ni fdin no fdout ne fderr p3)"
proof -
  consider "gave_up p (start_command k p cmd)"
    | fdin p1 where "pipe_taken ni fdin p p1"
        "start_command k p cmd =
           start_command_out k (cmd\<lparr>cmd_in := (if ni then snd fdin else cmd_in cmd)\<rparr>) ni fdin p1"
    using in_stage [OF ni, of p k] by blast
  then show ?thesis
  proof cases
    case 1
    then show ?thesis ..
  next
    case (2 fdin p1)
    let ?cmd1 = "cmd\<lparr>cmd_in := (if ni then snd fdin else cmd_in cmd)\<rparr>"
    have no1: "no = (\<not> no_stdout ?cmd1 \<and> \<not> stdout_to_stderr ?cmd1 \<and> cmd_out ?cmd1 < 0)"
      using no by simp
    consider "gave_up p (start_command_out k ?cmd1 ni fdin p1)"
      | fdout p2 where "pipe_taken no fdout p1 p2"
          "start_command_out k ?cmd1 ni fdin p1 =
             start_command_err k (?cmd1\<lparr>cmd_out := (if no then fst fdout else cmd_out ?cmd1)\<rparr>)
               ni fdin no fdout p2"
      using out_stage [OF 2(1) no1, of k] by blast
    then show ?thesis
    proof cases
      case 1
      with 2(2) show ?thesis by simp
    next
      case (2 fdout p2)
      let ?cmd2 = "?cmd1\<lparr>cmd_out := (if no then fst fdout else cmd_out ?cmd1)\<rparr>"
      have ne2: "ne = (\<not> no_stderr ?cmd2 \<and> cmd_err ?cmd2 < 0)"
        using ne by simp
      consider "gave_up p (start_command_err k ?cmd2 ni fdin no fdout p2)"
        | fderr p3 where "pipe_taken ne fderr p2 p3"
            "start_command_err k ?cmd2 ni fdin no fdout p2 =
               start_command_fork k (?cmd2\<lparr>cmd_err := (if ne then fst fderr else cmd_err ?cmd2)\<rparr>)
                 ni fdin no fdout ne fderr p3"
        using err_stage [OF \<open>pipe_taken ni fdin p p1\<close> 2(1) ne2, of k] by blast
      then show ?thesis
      proof cases
        case 1
        with 2(2) \<open>start_command k p cmd = start_command_out k ?cmd1 ni fdin p1\<close>
        show ?thesis by simp
      next
        case (2 fderr p3)
        have "start_command k p cmd =
                start_command_fork k
                  (cmd\<lparr>cmd_in := (if ni then snd fdin else cmd_in cmd),
                       cmd_out := (if no then fst fdout else cmd_out cmd),
                       cmd_err := (if ne then fst fderr else cmd_err cmd)\<rparr>)
                  ni fdin no fdout ne fderr p3"
          using 2(2) \<open>start_command_out k ?cmd1 ni fdin p1 = _\<close>
            \<open>start_command k p cmd = start_command_out k ?cmd1 ni fdin p1\<close>
          by simp
        with 2(1) \<open>pipe_taken ni fdin p p1\<close> \<open>pipe_taken no fdout p1 p2\<close>
        show ?thesis by blast
      qed
    qed
  qed
qed

section \<open>The launch as a whole\<close>

lemma ending_of_cases:
  "ending_of out = Returned c \<longleftrightarrow> (\<exists>x p. out = Returns c x p)"
  "ending_of out = Replaced g args \<longleftrightarrow> (\<exists>p. out = Execs g args p)"
  "ending_of out = Died f \<longleftrightarrow> (\<exists>p. out = Dies f p)"
  "ending_of out = Exited c \<longleftrightarrow> (\<exists>p. out = Exits c p)"
  by (cases out; simp)+

lemma start_command_forked:
  assumes "\<not> gave_up p (start_command k p cmd)"
  obtains fdin fdout fderr p3 cmd3 where
    "start_command k p cmd =
       start_command_fork k cmd3 (\<not> no_stdin cmd \<and> cmd_in cmd < 0) fdin
         (\<not> no_stdout cmd \<and> \<not> stdout_to_stderr cmd \<and> cmd_out cmd < 0) fdout
         (\<not> no_stderr cmd \<and> cmd_err cmd < 0) fderr p3"
    "cwd p3 = cwd p" "environ p3 = environ p" "children p3 = children p"
    "cmd3 = cmd\<lparr>cmd_in := cmd_in cmd3, cmd_out := cmd_out cmd3, cmd_err := cmd_err cmd3\<rparr>"
proof -
  from start_command_char [OF refl refl refl, of p k cmd] assms
  obtain fdin fdout fderr p1 p2 p3 where
    t: "pipe_taken (\<not> no_stdin cmd \<and> cmd_in cmd < 0) fdin p p1"
      "pipe_taken (\<not> no_stdout cmd \<and> \<not> stdout_to_stderr cmd \<and> cmd_out cmd < 0) fdout p1 p2"
      "pipe_taken (\<not> no_stderr cmd \<and> cmd_err cmd < 0) fderr p2 p3"
    and eq: "start_command k p cmd =
        start_command_fork k
          (cmd\<lparr>cmd_in := (if \<not> no_stdin cmd \<and> cmd_in cmd < 0 then snd fdin else cmd_in cmd),
               cmd_out := (if \<not> no_stdout cmd \<and> \<not> stdout_to_stderr cmd \<and> cmd_out cmd < 0
                           then fst fdout else cmd_out cmd),
               cmd_err := (if \<not> no_stderr cmd \<and> cmd_err cmd < 0 then fst fderr else cmd_err cmd)\<rparr>)
          (\<not> no_stdin cmd \<and> cmd_in cmd < 0) fdin
          (\<not> no_stdout cmd \<and> \<not> stdout_to_stderr cmd \<and> cmd_out cmd < 0) fdout
          (\<not> no_stderr cmd \<and> cmd_err cmd < 0) fderr p3"
    by blast
  have "cwd p3 = cwd p" "environ p3 = environ p" "children p3 = children p"
    using pipe_taken_fields [OF t(1)] pipe_taken_fields [OF t(2)] pipe_taken_fields [OF t(3)]
    by simp_all
  with eq show thesis
    by (rule that) simp
qed

text \<open>The launch as the child sees it when no pipe was refused.\<close>

lemma start_command_in_child:
  assumes "fork_ret k = 0" and "\<not> gave_up p (start_command k p cmd)"
    and ni: "ni = (\<not> no_stdin cmd \<and> cmd_in cmd < 0)"
    and no: "no = (\<not> no_stdout cmd \<and> \<not> stdout_to_stderr cmd \<and> cmd_out cmd < 0)"
    and ne: "ne = (\<not> no_stderr cmd \<and> cmd_err cmd < 0)"
  obtains fdin fdout fderr p1 p2 p3 where
    "pipe_taken ni fdin p p1" "pipe_taken no fdout p1 p2" "pipe_taken ne fderr p2 p3"
    "start_command k p cmd =
       in_child k
         (cmd\<lparr>cmd_in := (if ni then snd fdin else cmd_in cmd),
              cmd_out := (if no then fst fdout else cmd_out cmd),
              cmd_err := (if ne then fst fderr else cmd_err cmd),
              cmd_pid := 0\<rparr>)
         ni fdin no fdout ne fderr (p3\<lparr>children := []\<rparr>)"
proof -
  from start_command_char [OF ni no ne, of p k] assms(2)
  obtain fdin fdout fderr p1 p2 p3 where
    t: "pipe_taken ni fdin p p1" "pipe_taken no fdout p1 p2" "pipe_taken ne fderr p2 p3"
    and eq: "start_command k p cmd =
        start_command_fork k
          (cmd\<lparr>cmd_in := (if ni then snd fdin else cmd_in cmd),
               cmd_out := (if no then fst fdout else cmd_out cmd),
               cmd_err := (if ne then fst fderr else cmd_err cmd)\<rparr>)
          ni fdin no fdout ne fderr p3"
    by blast
  from eq assms(1) have "start_command k p cmd =
       in_child k
         (cmd\<lparr>cmd_in := (if ni then snd fdin else cmd_in cmd),
              cmd_out := (if no then fst fdout else cmd_out cmd),
              cmd_err := (if ne then fst fderr else cmd_err cmd),
              cmd_pid := 0\<rparr>)
         ni fdin no fdout ne fderr (p3\<lparr>children := []\<rparr>)"
    by (simp add: start_command_fork_eq)
  with t show thesis
    by (rule that)
qed

lemma start_command_launched:
  assumes "start_command k p cmd = Returns 0 cmd' p'"
  shows "cmd_pid cmd' = fork_ret k \<and> 0 < fork_ret k"
proof -
  have "\<not> gave_up p (start_command k p cmd)"
    using assms by (simp add: gave_up_def ERR_defs)
  then obtain fdin fdout fderr p3 cmd3 where
    "start_command k p cmd =
       start_command_fork k cmd3 (\<not> no_stdin cmd \<and> cmd_in cmd < 0) fdin
         (\<not> no_stdout cmd \<and> \<not> stdout_to_stderr cmd \<and> cmd_out cmd < 0) fdout
         (\<not> no_stderr cmd \<and> cmd_err cmd < 0) fderr p3"
    by (rule start_command_forked)
  with assms show ?thesis
    by (auto simp: start_command_fork_eq ERR_defs split: if_splits dest: in_parent_Returns)
qed

lemma start_command_no_need:
  assumes "0 \<le> cmd_in cmd" and "0 \<le> cmd_out cmd" and "0 \<le> cmd_err cmd"
  shows "start_command k p cmd =
     start_command_fork k cmd False no_pipe False no_pipe False no_pipe p"
  using assms
  by (simp add: start_command_def start_command_out_def start_command_err_def not_less [symmetric])

lemma run_command_proc:
  assumes "run_command k answers p cmd = Some out"
  shows "proc_of out = proc_of (start_command k p cmd)"
proof (cases "start_command k p cmd")
  case (Returns c x q)
  from assms show ?thesis
    unfolding run_command_def Returns by (auto split: if_splits)
next
  case (Execs g args q)
  from assms show ?thesis
    unfolding run_command_def Execs by auto
next
  case (Dies f q)
  from assms show ?thesis
    unfolding run_command_def Dies by auto
next
  case (Exits c q)
  from assms show ?thesis
    unfolding run_command_def Exits by auto
qed

lemma pipe_taken_apart:
  assumes "pipe_taken n fd p p'" and "fds p x \<noteq> None"
  shows "fds p' x = fds p x" and "n \<Longrightarrow> x \<noteq> fst fd \<and> x \<noteq> snd fd"
  using assms by (auto simp: pipe_taken_def split: if_splits)

section \<open>The exit translator\<close>

lemma wait_or_whine_retry:
  "interrupted a \<Longrightarrow> wait_or_whine (a ## answers) pid = wait_or_whine answers pid"
  by (subst wait_or_whine.simps) (simp add: interrupted_def)

lemma wait_or_whine_retries:
  "list_all interrupted intr \<Longrightarrow>
   wait_or_whine (intr @- answers) pid = wait_or_whine answers pid"
  by (induction intr) (simp_all add: wait_or_whine_retry)

lemma wait_or_whine_answer:
  "\<not> interrupted a \<Longrightarrow>
   wait_or_whine (a ## answers) pid =
     Some (if wp_ret a < 0 then - ERR_RUN_COMMAND_WAITPID
           else if wp_ret a \<noteq> pid then - ERR_RUN_COMMAND_WAITPID_WRONG_PID
           else if WIFSIGNALED (wp_status a) then - ERR_RUN_COMMAND_WAITPID_SIGNAL
           else if \<not> WIFEXITED (wp_status a) then - ERR_RUN_COMMAND_WAITPID_NOEXIT
           else - WEXITSTATUS (wp_status a))"
  by (subst wait_or_whine.simps) (simp add: interrupted_def Let_def)

subsection \<open>Facts about the status word\<close>

lemma mask_0xff: "(0xff :: 32 word) = mask 8"
  by (simp add: mask_eq_exp_minus_1)

lemma mask_0xff00: "(0xff00 :: 32 word) = push_bit 8 (mask 8)"
  by (simp add: mask_eq_exp_minus_1 push_bit_eq_mult)

lemma mask_0x7f: "(0x7f :: 32 word) = mask 7"
  by (simp add: mask_eq_exp_minus_1)

lemma WEXITSTATUS_nonneg: "0 \<le> WEXITSTATUS s"
  by (simp add: WEXITSTATUS_def)

lemma WEXITSTATUS_le: "WEXITSTATUS s \<le> 255"
proof -
  have "s AND 0xff00 \<le> 0xff00"
    by (rule word_and_le1)
  then have "uint (s AND 0xff00) \<le> 0xff00"
    by (simp add: word_le_def)
  then have "uint (s AND 0xff00) div 2 ^ 8 \<le> 255"
    by simp
  then show ?thesis
    by (simp add: WEXITSTATUS_def drop_bit_eq_div uint_div_distrib)
qed

lemma WIFEXITED_not_signaled: "WIFEXITED s \<Longrightarrow> \<not> WIFSIGNALED s"
  by (simp add: WIFEXITED_def WTERMSIG_def WIFSIGNALED_def)

lemma WTERMSIG_exit: "WTERMSIG (W_EXITCODE c) = 0"
  unfolding WTERMSIG_def W_EXITCODE_def mask_0x7f mask_0xff
  by (rule bit_word_eqI) (auto simp: bit_simps)

lemma WIFEXITED_exit: "WIFEXITED (W_EXITCODE c)"
  by (simp add: WIFEXITED_def WTERMSIG_exit)

lemma WEXITSTATUS_exit: "WEXITSTATUS (W_EXITCODE c) = c mod 256"
proof -
  have "drop_bit 8 (W_EXITCODE c AND 0xff00) = word_of_int c AND 0xff"
    unfolding W_EXITCODE_def mask_0xff mask_0xff00
    by (rule bit_word_eqI) (auto simp: bit_simps)
  then have "WEXITSTATUS (W_EXITCODE c) = uint (take_bit 8 (word_of_int c :: 32 word))"
    by (simp add: WEXITSTATUS_def mask_0xff take_bit_eq_mask)
  also have "\<dots> = take_bit 8 c"
    by (simp add: unsigned_take_bit_eq uint_word_of_int_eq min_def)
  finally show ?thesis
    by (simp add: take_bit_eq_mod)
qed

subsection \<open>Classification\<close>

text \<open>
  C1. Whatever the process id, \<open>wait_or_whine\<close> (and \<open>finish_command\<close>, which passes the
  \<open>pid\<close> field to it) takes the answers of \<^verbatim>\<open>waitpid\<close> one by one, skips every answer that
  is an interruption (negative return with \<^verbatim>\<open>EINTR\<close>), and returns for the first other
  answer, in this order of priority: the wait error when the call failed; the wrong-pid error
  when the id returned is not the one asked for; the signal error when the status says
  signaled; the no-exit error when the status is not a normal exit; \<open>0\<close> for exit code 0; and
  the negated code for any other exit code.
\<close>

theorem wait_or_whine_classification:
  assumes "list_all interrupted intr" and "\<not> interrupted a" and "pid = cmd_pid cmd"
  shows "wait_or_whine (intr @- a ## rest) pid =
           Some (if wp_ret a < 0 then - ERR_RUN_COMMAND_WAITPID
                 else if wp_ret a \<noteq> pid then - ERR_RUN_COMMAND_WAITPID_WRONG_PID
                 else if WIFSIGNALED (wp_status a) then - ERR_RUN_COMMAND_WAITPID_SIGNAL
                 else if \<not> WIFEXITED (wp_status a) then - ERR_RUN_COMMAND_WAITPID_NOEXIT
                 else if WEXITSTATUS (wp_status a) = 0 then 0
                 else - WEXITSTATUS (wp_status a))
         \<and> finish_command (intr @- a ## rest) cmd = wait_or_whine (intr @- a ## rest) pid"
proof -
  have "wait_or_whine (intr @- a ## rest) pid = wait_or_whine (a ## rest) pid"
    using assms(1) by (rule wait_or_whine_retries)
  with assms(2,3) show ?thesis
    by (simp add: wait_or_whine_answer finish_command_def)
qed

theorem wait_or_whine_classification_witness:
  "wait_or_whine
     ([\<lparr>wp_ret = - 1, wp_status = 0, wp_errno = 4\<rparr>, \<lparr>wp_ret = - 1, wp_status = 0, wp_errno = 4\<rparr>]
        @- \<lparr>wp_ret = 42, wp_status = 0x300, wp_errno = 0\<rparr>
        ## sconst \<lparr>wp_ret = - 1, wp_status = 0, wp_errno = 10\<rparr>) 42 = Some (- 3)
   \<and> finish_command
     ([\<lparr>wp_ret = - 1, wp_status = 0, wp_errno = 4\<rparr>, \<lparr>wp_ret = - 1, wp_status = 0, wp_errno = 4\<rparr>]
        @- \<lparr>wp_ret = 42, wp_status = 0x300, wp_errno = 0\<rparr>
        ## sconst \<lparr>wp_ret = - 1, wp_status = 0, wp_errno = 10\<rparr>)
     \<lparr>cmd_argv = [''false''], cmd_pid = 42, cmd_in = 0, cmd_out = 0, cmd_err = 0,
      cmd_dir = None, cmd_env = None, no_stdin = False, no_stdout = False,
      no_stderr = False, git_cmd = False, stdout_to_stderr = False\<rparr> = Some (- 3)"
  using wait_or_whine_classification
    [of "[\<lparr>wp_ret = - 1, wp_status = 0, wp_errno = 4\<rparr>, \<lparr>wp_ret = - 1, wp_status = 0, wp_errno = 4\<rparr>]"
        "\<lparr>wp_ret = 42, wp_status = 0x300, wp_errno = 0\<rparr>" 42
        "\<lparr>cmd_argv = [''false''], cmd_pid = 42, cmd_in = 0, cmd_out = 0, cmd_err = 0,
          cmd_dir = None, cmd_env = None, no_stdin = False, no_stdout = False,
          no_stderr = False, git_cmd = False, stdout_to_stderr = False\<rparr>"
        "sconst \<lparr>wp_ret = - 1, wp_status = 0, wp_errno = 10\<rparr>"]
  by (simp add: interrupted_def EINTR_def WIFSIGNALED_def WIFEXITED_def WTERMSIG_def
      WEXITSTATUS_def)

text \<open>
  C4. A child that exits normally with a code \<open>N\<close> other than 0 makes the translator return
  \<open>- N\<close>. The code read from the status is at most 255 and every reserved error code is at
  least 10000, so \<open>- N\<close> is none of the values returned for a failure of the system.
\<close>

theorem child_exit_code_apart_from_system_errors:
  assumes "list_all interrupted intr"
    and "wp_ret a = pid" and "0 \<le> pid"
    and "WIFEXITED (wp_status a)" and "WEXITSTATUS (wp_status a) = N" and "N \<noteq> 0"
  shows "wait_or_whine (intr @- a ## rest) pid = Some (- N)
         \<and> 1 \<le> N \<and> N \<le> 255
         \<and> (\<forall>e \<in> set system_errors. e \<le> - 10000 \<and> - N \<noteq> e)"
proof -
  have "\<not> interrupted a"
    using assms(2,3) by (simp add: interrupted_def)
  then have "wait_or_whine (intr @- a ## rest) pid = Some (- N)"
    using assms by (simp add: wait_or_whine_retries wait_or_whine_answer WIFEXITED_not_signaled)
  moreover have "1 \<le> N" "N \<le> 255"
    using WEXITSTATUS_nonneg [of "wp_status a"] WEXITSTATUS_le [of "wp_status a"] assms(5,6)
    by simp_all
  ultimately show ?thesis
    by (simp add: system_errors_def ERR_defs)
qed

theorem child_exit_code_apart_from_system_errors_witness:
  "wait_or_whine
     ([\<lparr>wp_ret = - 1, wp_status = 0, wp_errno = 4\<rparr>]
        @- \<lparr>wp_ret = 7, wp_status = 0xff00, wp_errno = 0\<rparr>
        ## sconst \<lparr>wp_ret = - 1, wp_status = 0, wp_errno = 10\<rparr>) 7 = Some (- 255)
   \<and> list_all (\<lambda>e. e \<le> - 10000 \<and> - 255 \<noteq> e) system_errors"
  using child_exit_code_apart_from_system_errors
    [of "[\<lparr>wp_ret = - 1, wp_status = 0, wp_errno = 4\<rparr>]"
        "\<lparr>wp_ret = 7, wp_status = 0xff00, wp_errno = 0\<rparr>" 7 255
        "sconst \<lparr>wp_ret = - 1, wp_status = 0, wp_errno = 10\<rparr>"]
  by (simp add: interrupted_def EINTR_def WIFEXITED_def WTERMSIG_def WEXITSTATUS_def
      list_all_iff)

section \<open>Failure of a launch\<close>

text \<open>
  C2. When the kernel refuses a pipe during a launch, \<open>start_command\<close> returns
  \<open>- ERR_RUN_COMMAND_PIPE\<close>; when every pipe was given and the fork fails, it returns
  \<open>- ERR_RUN_COMMAND_FORK\<close>. Both values are negative, and in both cases the descriptor
  table is the one the launch started from, so every pipe taken on the way has been closed,
  and the list of children is unchanged: no process was created.
\<close>

theorem start_command_failure_releases_pipes:
  fixes k p cmd
  defines "out \<equiv> start_command k p cmd"
  shows "(0 < failed_pipe_requests p (proc_of out) \<longrightarrow>
            (\<exists>cmd'. out = Returns (- ERR_RUN_COMMAND_PIPE) cmd' (proc_of out))
            \<and> fds (proc_of out) = fds p \<and> children (proc_of out) = children p)
       \<and> (failed_pipe_requests p (proc_of out) = 0 \<and> fork_ret k < 0 \<longrightarrow>
            (\<exists>cmd'. out = Returns (- ERR_RUN_COMMAND_FORK) cmd' (proc_of out))
            \<and> fds (proc_of out) = fds p \<and> children (proc_of out) = children p)
       \<and> - ERR_RUN_COMMAND_PIPE < 0 \<and> - ERR_RUN_COMMAND_FORK < 0"
proof -
  define ni where "ni = (\<not> no_stdin cmd \<and> cmd_in cmd < 0)"
  define no where "no = (\<not> no_stdout cmd \<and> \<not> stdout_to_stderr cmd \<and> cmd_out cmd < 0)"
  define ne where "ne = (\<not> no_stderr cmd \<and> cmd_err cmd < 0)"
  consider (gave_up) "gave_up p out"
    | (forks) fdin fdout fderr p1 p2 p3 cmd3
      where "pipe_taken ni fdin p p1" "pipe_taken no fdout p1 p2" "pipe_taken ne fderr p2 p3"
        "out = start_command_fork k cmd3 ni fdin no fdout ne fderr p3"
    using start_command_char [OF ni_def no_def ne_def, of p k] unfolding out_def by blast
  then show ?thesis
  proof cases
    case gave_up
    then show ?thesis
      by (auto simp: gave_up_def failed_pipe_requests_def ERR_defs)
  next
    case forks
    have c: "pipe_calls p3 = pipe_calls p + of_bool ni + of_bool no + of_bool ne"
      "pipes_made p3 = pipes_made p + of_bool ni + of_bool no + of_bool ne"
      "children p3 = children p"
      using pipe_taken_fields [OF forks(1)] pipe_taken_fields [OF forks(2)]
        pipe_taken_fields [OF forks(3)] by simp_all
    have rel: "fds (if ne then close_pair fderr (if no then close_pair fdout (if ni then close_pair fdin p3 else p3)
                  else (if ni then close_pair fdin p3 else p3))
              else (if no then close_pair fdout (if ni then close_pair fdin p3 else p3)
                  else (if ni then close_pair fdin p3 else p3))) = fds p"
      using forks(1-3) by (rule pipe_taken_release3) simp
    have "pipe_calls (proc_of out) = pipe_calls p3" "pipes_made (proc_of out) = pipes_made p3"
      unfolding forks(4) start_command_fork_eq by simp_all
    then have nofail: "failed_pipe_requests p (proc_of out) = 0"
      by (simp add: failed_pipe_requests_def c)
    have "fork_ret k < 0 \<Longrightarrow>
        (\<exists>cmd'. out = Returns (- ERR_RUN_COMMAND_FORK) cmd' (proc_of out))
        \<and> fds (proc_of out) = fds p \<and> children (proc_of out) = children p"
      unfolding forks(4) start_command_fork_eq using rel by (simp add: c)
    with nofail show ?thesis
      by (simp add: ERR_defs)
  qed
qed

theorem start_command_failure_releases_pipes_witness:
  "0 < failed_pipe_requests std_process
         (proc_of (start_command (std_kernel 6 7) std_process
            (plain_cmd\<lparr>cmd_in := - 1, cmd_out := - 1, cmd_err := - 1\<rparr>)))
   \<and> ending_of (start_command (std_kernel 6 7) std_process
         (plain_cmd\<lparr>cmd_in := - 1, cmd_out := - 1, cmd_err := - 1\<rparr>)) = Returned (- 10002)
   \<and> fds (proc_of (start_command (std_kernel 6 7) std_process
         (plain_cmd\<lparr>cmd_in := - 1, cmd_out := - 1, cmd_err := - 1\<rparr>))) = fds std_process
   \<and> fork_ret (std_kernel 16 (- 1)) < 0
   \<and> ending_of (start_command (std_kernel 16 (- 1)) std_process
         (plain_cmd\<lparr>cmd_in := - 1, cmd_out := - 1, cmd_err := - 1\<rparr>)) = Returned (- 10000)
   \<and> fds (proc_of (start_command (std_kernel 16 (- 1)) std_process
         (plain_cmd\<lparr>cmd_in := - 1, cmd_out := - 1, cmd_err := - 1\<rparr>))) = fds std_process"
proof -
  let ?cmd = "plain_cmd\<lparr>cmd_in := - 1, cmd_out := - 1, cmd_err := - 1\<rparr>"
  have a: "0 < failed_pipe_requests std_process (proc_of (start_command (std_kernel 6 7) std_process ?cmd))"
    "ending_of (start_command (std_kernel 6 7) std_process ?cmd) = Returned (- 10002)"
    by code_simp+
  have b: "failed_pipe_requests std_process (proc_of (start_command (std_kernel 16 (- 1)) std_process ?cmd)) = 0"
    "fork_ret (std_kernel 16 (- 1)) < 0"
    "ending_of (start_command (std_kernel 16 (- 1)) std_process ?cmd) = Returned (- 10000)"
    by code_simp+
  show ?thesis
    using a b start_command_failure_releases_pipes [of std_process "std_kernel 6 7" ?cmd]
      start_command_failure_releases_pipes [of std_process "std_kernel 16 (- 1)" ?cmd]
    by simp
qed

section \<open>The environment of the child\<close>

lemma environ_env_loop: "environ (env_loop es p) = fold apply_entry es (environ p)"
  by (induction es arbitrary: p) (simp_all add: apply_entry_def putenv_def unsetenv_def)

lemma fold_apply_entry_unset:
  assumes "\<forall>y \<in> set ys. CHR ''='' \<in> set y \<longrightarrow> takeWhile (\<lambda>c. c \<noteq> CHR ''='') y \<noteq> name"
    and "env name = None"
  shows "fold apply_entry ys env name = None"
  using assms
proof (induction ys arbitrary: env)
  case Nil
  then show ?case by simp
next
  case (Cons y ys)
  have "apply_entry y env name = None"
  proof (cases "CHR ''='' \<in> set y")
    case True
    with Cons.prems(1) have "name \<noteq> takeWhile (\<lambda>c. c \<noteq> CHR ''='') y"
      by auto
    moreover have "apply_entry y env =
        env(takeWhile (\<lambda>c. c \<noteq> CHR ''='') y \<mapsto> tl (dropWhile (\<lambda>c. c \<noteq> CHR ''='') y))"
      using True by (simp add: apply_entry_def)
    ultimately show ?thesis
      using Cons.prems(2) by simp
  next
    case False
    then have "apply_entry y env = (if y = [] then env else env(y := None))"
      by (simp add: apply_entry_def)
    then show ?thesis
      using Cons.prems(2) by simp
  qed
  with Cons.IH [of "apply_entry y env"] Cons.prems(1) show ?case
    by simp
qed

lemma in_child_environ:
  assumes "in_child k cmd ni fi no fo ne fe p = Execs g args p'
         \<or> in_child k cmd ni fi no fo ne fe p = Dies Exec_Failed p'"
  shows "environ p' = (case cmd_env cmd of None \<Rightarrow> environ p | Some es \<Rightarrow> fold apply_entry es (environ p))"
  using assms
  by (auto simp: in_child_def child_exec_def child_env_exec_def sys_chdir_def Let_def
      environ_env_loop split: option.splits if_splits)

text \<open>
  C8. With an environment list \<open>es\<close> in the configuration, a child that reaches the exec
  (whether the exec then succeeds or fails) has the environment of the caller with the
  entries of \<open>es\<close> applied one after the other in the order of the list, an entry with
  \<^verbatim>\<open>=\<close> setting its variable and a bare name unsetting it. So a bare name that no later
  entry sets again is unset at the exec, whatever came before it. A call that returns, as
  every call in the parent does, leaves the environment as it was.
\<close>

theorem environment_applied_in_order:
  fixes k p cmd
  defines "out \<equiv> start_command k p cmd"
  assumes "cmd_env cmd = Some es"
  shows "((\<exists>g args. ending_of out = Replaced g args) \<or> ending_of out = Died Exec_Failed
            \<longrightarrow> environ (proc_of out) = fold apply_entry es (environ p)
              \<and> (\<forall>xs name ys. es = xs @ [name] @ ys \<and> name \<noteq> [] \<and> CHR ''='' \<notin> set name
                    \<and> (\<forall>y \<in> set ys. CHR ''='' \<in> set y \<longrightarrow>
                          takeWhile (\<lambda>c. c \<noteq> CHR ''='') y \<noteq> name)
                    \<longrightarrow> environ (proc_of out) name = None))
       \<and> ((\<exists>c. ending_of out = Returned c) \<longrightarrow> environ (proc_of out) = environ p)"
proof (intro conjI impI)
  assume "(\<exists>g args. ending_of out = Replaced g args) \<or> ending_of out = Died Exec_Failed"
  then obtain g args where a: "out = Execs g args (proc_of out) \<or> out = Dies Exec_Failed (proc_of out)"
    by (cases out) auto
  then have "\<not> gave_up p (start_command k p cmd)"
    unfolding out_def by (auto simp: gave_up_def)
  then obtain fdin fdout fderr p3 cmd3 where
    eq: "start_command k p cmd =
       start_command_fork k cmd3 (\<not> no_stdin cmd \<and> cmd_in cmd < 0) fdin
         (\<not> no_stdout cmd \<and> \<not> stdout_to_stderr cmd \<and> cmd_out cmd < 0) fdout
         (\<not> no_stderr cmd \<and> cmd_err cmd < 0) fderr p3"
    and f: "environ p3 = environ p"
    and c: "cmd3 = cmd\<lparr>cmd_in := cmd_in cmd3, cmd_out := cmd_out cmd3, cmd_err := cmd_err cmd3\<rparr>"
    by (rule start_command_forked)
  have env3: "cmd_env cmd3 = Some es"
    by (subst c) (simp add: assms)
  from a eq have "fork_ret k = 0"
    unfolding out_def
    by (auto simp: start_command_fork_eq in_parent_def Let_def split: if_splits)
  with a eq have "in_child k (cmd3\<lparr>cmd_pid := 0\<rparr>) (\<not> no_stdin cmd \<and> cmd_in cmd < 0) fdin
         (\<not> no_stdout cmd \<and> \<not> stdout_to_stderr cmd \<and> cmd_out cmd < 0) fdout
         (\<not> no_stderr cmd \<and> cmd_err cmd < 0) fderr (p3\<lparr>children := []\<rparr>) = Execs g args (proc_of out)
      \<or> in_child k (cmd3\<lparr>cmd_pid := 0\<rparr>) (\<not> no_stdin cmd \<and> cmd_in cmd < 0) fdin
         (\<not> no_stdout cmd \<and> \<not> stdout_to_stderr cmd \<and> cmd_out cmd < 0) fdout
         (\<not> no_stderr cmd \<and> cmd_err cmd < 0) fderr (p3\<lparr>children := []\<rparr>) = Dies Exec_Failed (proc_of out)"
    unfolding out_def by (simp add: start_command_fork_eq)
  from in_child_environ [OF this]
  show e: "environ (proc_of out) = fold apply_entry es (environ p)"
    by (simp add: env3 f)
  show "\<forall>xs name ys. es = xs @ [name] @ ys \<and> name \<noteq> [] \<and> CHR ''='' \<notin> set name
                    \<and> (\<forall>y \<in> set ys. CHR ''='' \<in> set y \<longrightarrow>
                          takeWhile (\<lambda>c. c \<noteq> CHR ''='') y \<noteq> name)
                    \<longrightarrow> environ (proc_of out) name = None"
    unfolding e by (auto simp: fold_apply_entry_unset apply_entry_def)
next
  assume "\<exists>c. ending_of out = Returned c"
  then obtain c cmd' where a: "start_command k p cmd = Returns c cmd' (proc_of out)"
    unfolding out_def by (cases "start_command k p cmd") auto
  show "environ (proc_of out) = environ p"
  proof (cases "gave_up p (start_command k p cmd)")
    case True
    with a show ?thesis by (auto simp: gave_up_def)
  next
    case False
    then obtain fdin fdout fderr p3 cmd3 where
      eq: "start_command k p cmd =
         start_command_fork k cmd3 (\<not> no_stdin cmd \<and> cmd_in cmd < 0) fdin
           (\<not> no_stdout cmd \<and> \<not> stdout_to_stderr cmd \<and> cmd_out cmd < 0) fdout
           (\<not> no_stderr cmd \<and> cmd_err cmd < 0) fderr p3"
      and f: "environ p3 = environ p"
      by (rule start_command_forked)
    have "environ (proc_of (start_command k p cmd)) = environ p3 \<or> fork_ret k = 0"
      unfolding eq start_command_fork_eq by simp
    with a eq show ?thesis
      unfolding out_def by (auto simp: f start_command_fork_eq)
  qed
qed

theorem environment_applied_in_order_witness:
  "ending_of (start_command (std_kernel 16 0) std_process
      (plain_cmd\<lparr>cmd_env := Some [''FOO=bar'', ''BAZ=1'', ''FOO'']\<rparr>)) = Replaced False [''true'']
   \<and> environ (proc_of (start_command (std_kernel 16 0) std_process
      (plain_cmd\<lparr>cmd_env := Some [''FOO=bar'', ''BAZ=1'', ''FOO'']\<rparr>))) ''FOO'' = None
   \<and> environ (proc_of (start_command (std_kernel 16 0) std_process
      (plain_cmd\<lparr>cmd_env := Some [''FOO=bar'', ''BAZ=1'', ''FOO'']\<rparr>))) ''BAZ'' = Some ''1''
   \<and> ending_of (start_command (std_kernel 16 7) std_process
      (plain_cmd\<lparr>cmd_env := Some [''FOO=bar'', ''BAZ=1'', ''FOO'']\<rparr>)) = Returned 0
   \<and> environ (proc_of (start_command (std_kernel 16 7) std_process
      (plain_cmd\<lparr>cmd_env := Some [''FOO=bar'', ''BAZ=1'', ''FOO'']\<rparr>))) = environ std_process"
proof -
  let ?cmd = "plain_cmd\<lparr>cmd_env := Some [''FOO=bar'', ''BAZ=1'', ''FOO'']\<rparr>"
  have a: "ending_of (start_command (std_kernel 16 0) std_process ?cmd) = Replaced False [''true'']"
    "ending_of (start_command (std_kernel 16 7) std_process ?cmd) = Returned 0"
    by code_simp+
  have b: "cmd_env ?cmd = Some [''FOO=bar'', ''BAZ=1'', ''FOO'']"
    by simp
  have "(\<exists>g args. ending_of (start_command (std_kernel 16 0) std_process ?cmd) = Replaced g args)
      \<or> ending_of (start_command (std_kernel 16 0) std_process ?cmd) = Died Exec_Failed"
    using a(1) by blast
  with environment_applied_in_order [OF b, of "std_kernel 16 0" std_process]
  have c: "environ (proc_of (start_command (std_kernel 16 0) std_process ?cmd)) =
      fold apply_entry [''FOO=bar'', ''BAZ=1'', ''FOO''] (environ std_process)"
    by blast
  have "\<exists>c. ending_of (start_command (std_kernel 16 7) std_process ?cmd) = Returned c"
    using a(2) by blast
  with environment_applied_in_order [OF b, of "std_kernel 16 7" std_process]
  have d: "environ (proc_of (start_command (std_kernel 16 7) std_process ?cmd)) = environ std_process"
    by blast
  show ?thesis
    using a d by (simp add: c apply_entry_def)
qed

section \<open>A working directory that does not exist\<close>

lemma start_command_lookup_dir:
  assumes "fork_ret k \<noteq> 0"
  shows "start_command (k\<lparr>lookup_dir := l\<rparr>) p cmd = start_command k p cmd"
proof -
  have f: "start_command_fork (k\<lparr>lookup_dir := l\<rparr>) c ni fi no fo ne fe q =
      start_command_fork k c ni fi no fo ne fe q" for c ni fi no fo ne fe q
    using assms by (simp add: start_command_fork_eq)
  have e: "start_command_err (k\<lparr>lookup_dir := l\<rparr>) c ni fi no fo q =
      start_command_err k c ni fi no fo q" for c ni fi no fo q
    by (simp add: start_command_err_def f Let_def split: prod.splits option.splits)
  have o: "start_command_out (k\<lparr>lookup_dir := l\<rparr>) c ni fi q =
      start_command_out k c ni fi q" for c ni fi q
    by (simp add: start_command_out_def e Let_def split: prod.splits option.splits)
  show ?thesis
    by (simp add: start_command_def o Let_def split: prod.splits option.splits)
qed

lemma in_child_bad_directory:
  assumes "cmd_dir cmd = Some d" and "lookup_dir k (cwd p) d = None"
  shows "in_child k cmd ni fi no fo ne fe p =
     Dies (Cd_Failed d) (child_stderr k cmd ne fe (child_stdout k cmd no fo (child_stdin k cmd ni fi p)))"
  using assms by (simp add: in_child_def child_exec_def sys_chdir_def)

lemma died_status_translation:
  assumes "list_all interrupted intr" and "0 \<le> pid"
  shows "wait_or_whine (intr @- \<lparr>wp_ret = pid, wp_status = died_status reserved, wp_errno = e\<rparr> ## rest) pid
       = Some (- (reserved mod 256))"
proof -
  have "\<not> interrupted \<lparr>wp_ret = pid, wp_status = died_status reserved, wp_errno = e\<rparr>"
    using assms(2) by (simp add: interrupted_def)
  then show ?thesis
    using assms
    by (simp add: wait_or_whine_retries wait_or_whine_answer died_status_def WIFEXITED_exit
        WIFEXITED_not_signaled WEXITSTATUS_exit)
qed

text \<open>
  C9, as amended. With a working directory that does not exist, a launch that gets as far
  as the fork has a child that is ended by the fatal handler on line 96, with the
  environment and the directory as they were: before line 98 and before any exec. The
  parent's launch is the one it would be were the directory there. When the handler ends
  the child by an exit with a reserved status that is not 0 modulo 256, the parent's
  \<open>run_command\<close> returns the negation of that status: not 0, and none of the reserved
  error values, so neither the signal nor the no-exit error.
\<close>

theorem missing_directory_kills_child_only:
  fixes k p cmd
  assumes "cmd_dir cmd = Some d" and "lookup_dir k (cwd p) d = None"
  shows "(gave_up p (start_command (k\<lparr>fork_ret := 0\<rparr>) p cmd)
          \<or> ending_of (start_command (k\<lparr>fork_ret := 0\<rparr>) p cmd) = Died (Cd_Failed d)
            \<and> environ (proc_of (start_command (k\<lparr>fork_ret := 0\<rparr>) p cmd)) = environ p
            \<and> cwd (proc_of (start_command (k\<lparr>fork_ret := 0\<rparr>) p cmd)) = cwd p)
       \<and> (fork_ret k \<noteq> 0 \<longrightarrow>
            start_command k p cmd = start_command (k\<lparr>lookup_dir := (\<lambda>wd path. Some path)\<rparr>) p cmd)
       \<and> (\<forall>cmd' p' intr e rest reserved.
            start_command k p cmd = Returns 0 cmd' p' \<and> list_all interrupted intr
            \<and> reserved mod 256 \<noteq> 0 \<longrightarrow>
            run_command k
              (intr @- \<lparr>wp_ret = cmd_pid cmd', wp_status = died_status reserved, wp_errno = e\<rparr> ## rest)
              p cmd = Some (Returns (- (reserved mod 256)) cmd' p')
            \<and> - (reserved mod 256) \<noteq> 0
            \<and> - (reserved mod 256) \<notin> set system_errors)"
proof -
  let ?k = "k\<lparr>fork_ret := 0\<rparr>"
  have child: "gave_up p (start_command ?k p cmd)
          \<or> ending_of (start_command ?k p cmd) = Died (Cd_Failed d)
            \<and> environ (proc_of (start_command ?k p cmd)) = environ p
            \<and> cwd (proc_of (start_command ?k p cmd)) = cwd p"
  proof (cases "gave_up p (start_command ?k p cmd)")
    case True
    then show ?thesis ..
  next
    case False
    then obtain fdin fdout fderr p3 cmd3 where
      eq: "start_command ?k p cmd =
         start_command_fork ?k cmd3 (\<not> no_stdin cmd \<and> cmd_in cmd < 0) fdin
           (\<not> no_stdout cmd \<and> \<not> stdout_to_stderr cmd \<and> cmd_out cmd < 0) fdout
           (\<not> no_stderr cmd \<and> cmd_err cmd < 0) fderr p3"
      and f: "cwd p3 = cwd p" "environ p3 = environ p"
      and c: "cmd3 = cmd\<lparr>cmd_in := cmd_in cmd3, cmd_out := cmd_out cmd3, cmd_err := cmd_err cmd3\<rparr>"
      by (rule start_command_forked)
    have dir3: "cmd_dir (cmd3\<lparr>cmd_pid := 0\<rparr>) = Some d"
      by (subst c) (simp add: assms)
    have "lookup_dir ?k (cwd (p3\<lparr>children := []\<rparr>)) d = None"
      using assms(2) by (simp add: f)
    from in_child_bad_directory [OF dir3 this] show ?thesis
      unfolding eq start_command_fork_eq by (simp add: f)
  qed
  have parent: "start_command k p cmd = start_command (k\<lparr>lookup_dir := (\<lambda>wd path. Some path)\<rparr>) p cmd"
    if "fork_ret k \<noteq> 0"
    using that by (simp add: start_command_lookup_dir)
  have reap: "run_command k
              (intr @- \<lparr>wp_ret = cmd_pid cmd', wp_status = died_status reserved, wp_errno = e\<rparr> ## rest)
              p cmd = Some (Returns (- (reserved mod 256)) cmd' p')
            \<and> - (reserved mod 256) \<noteq> 0
            \<and> - (reserved mod 256) \<notin> set system_errors"
    if a: "start_command k p cmd = Returns 0 cmd' p' \<and> list_all interrupted intr
            \<and> reserved mod 256 \<noteq> 0"
    for cmd' p' intr e rest and reserved :: int
  proof -
    from a have pid: "cmd_pid cmd' = fork_ret k" "0 < fork_ret k"
      using start_command_launched by blast+
    have "\<forall>x \<in> set system_errors. x < - 255"
      by (simp add: system_errors_def ERR_defs)
    moreover have "reserved mod 256 < 256"
      by simp
    ultimately have "- (reserved mod 256) \<notin> set system_errors"
      by fastforce
    with a pid show ?thesis
      by (simp add: run_command_def finish_command_def died_status_translation)
  qed
  from child parent reap show ?thesis
    by blast
qed

theorem missing_directory_kills_child_only_witness:
  "ending_of (start_command ((std_kernel 16 7)\<lparr>fork_ret := 0\<rparr>) std_process
       (plain_cmd\<lparr>cmd_dir := Some ''/nonexistent''\<rparr>)) = Died (Cd_Failed ''/nonexistent'')
   \<and> environ (proc_of (start_command ((std_kernel 16 7)\<lparr>fork_ret := 0\<rparr>) std_process
       (plain_cmd\<lparr>cmd_dir := Some ''/nonexistent''\<rparr>))) = environ std_process
   \<and> start_command (std_kernel 16 7) std_process (plain_cmd\<lparr>cmd_dir := Some ''/nonexistent''\<rparr>)
       = start_command ((std_kernel 16 7)\<lparr>lookup_dir := (\<lambda>wd path. Some path)\<rparr>) std_process
           (plain_cmd\<lparr>cmd_dir := Some ''/nonexistent''\<rparr>)
   \<and> map_option ending_of
        (run_command (std_kernel 16 7)
          ([\<lparr>wp_ret = - 1, wp_status = 0, wp_errno = 4\<rparr>]
             @- \<lparr>wp_ret = 7, wp_status = died_status 128, wp_errno = 0\<rparr>
             ## sconst \<lparr>wp_ret = - 1, wp_status = 0, wp_errno = 10\<rparr>)
          std_process (plain_cmd\<lparr>cmd_dir := Some ''/nonexistent''\<rparr>)) = Some (Returned (- 128))"
proof -
  let ?k = "std_kernel 16 7"
  let ?cmd = "plain_cmd\<lparr>cmd_dir := Some ''/nonexistent''\<rparr>"
  have h: "cmd_dir ?cmd = Some ''/nonexistent''"
    "lookup_dir ?k (cwd std_process) ''/nonexistent'' = None"
    "fork_ret ?k \<noteq> 0"
    "list_all interrupted [\<lparr>wp_ret = - 1, wp_status = 0, wp_errno = 4\<rparr>]"
    by (simp_all add: std_kernel_def interrupted_def EINTR_def)
  note t = missing_directory_kills_child_only [OF h(1,2)]
  have d: "ending_of (start_command (?k\<lparr>fork_ret := 0\<rparr>) std_process ?cmd) = Died (Cd_Failed ''/nonexistent'')"
    by code_simp
  then have "\<not> gave_up std_process (start_command (?k\<lparr>fork_ret := 0\<rparr>) std_process ?cmd)"
    by (auto simp: gave_up_def)
  with t have e: "environ (proc_of (start_command (?k\<lparr>fork_ret := 0\<rparr>) std_process ?cmd)) = environ std_process"
    by blast
  have "ending_of (start_command ?k std_process ?cmd) = Returned 0"
    by code_simp
  then obtain cmd' p' where r: "start_command ?k std_process ?cmd = Returns 0 cmd' p'"
    by (auto simp: ending_of_cases)
  then have pid: "cmd_pid cmd' = 7"
    using start_command_launched [OF r] by (simp add: std_kernel_def)
  have "(128 :: int) mod 256 \<noteq> 0"
    by simp
  with t r h(4)
  have "run_command ?k
          ([\<lparr>wp_ret = - 1, wp_status = 0, wp_errno = 4\<rparr>]
             @- \<lparr>wp_ret = cmd_pid cmd', wp_status = died_status 128, wp_errno = 0\<rparr>
             ## sconst \<lparr>wp_ret = - 1, wp_status = 0, wp_errno = 10\<rparr>)
          std_process ?cmd = Some (Returns (- (128 mod 256)) cmd' p')"
    by blast
  then show ?thesis
    using d e t h(3) by (simp add: pid)
qed

text \<open>
  The claim as first stated has the parent see a signaled or abnormal termination. With
  the reserved status 128 the parent gets \<open>- 128\<close>, the child-exit error.
\<close>

theorem missing_directory_counterexample:
  "ending_of (start_command (std_kernel 16 0) std_process
       (plain_cmd\<lparr>cmd_dir := Some ''/nonexistent''\<rparr>)) = Died (Cd_Failed ''/nonexistent'')
   \<and> map_option ending_of
        (run_command (std_kernel 16 7)
          (\<lparr>wp_ret = 7, wp_status = died_status 128, wp_errno = 0\<rparr>
             ## sconst \<lparr>wp_ret = - 1, wp_status = 0, wp_errno = 10\<rparr>)
          std_process (plain_cmd\<lparr>cmd_dir := Some ''/nonexistent''\<rparr>)) = Some (Returned (- 128))
   \<and> - 128 \<noteq> - ERR_RUN_COMMAND_WAITPID_SIGNAL
   \<and> - 128 \<noteq> - ERR_RUN_COMMAND_WAITPID_NOEXIT"
proof -
  let ?k = "std_kernel 16 7"
  let ?cmd = "plain_cmd\<lparr>cmd_dir := Some ''/nonexistent''\<rparr>"
  have d: "ending_of (start_command (std_kernel 16 0) std_process ?cmd) = Died (Cd_Failed ''/nonexistent'')"
    by code_simp
  have "ending_of (start_command ?k std_process ?cmd) = Returned 0"
    by code_simp
  then obtain cmd' p' where r: "start_command ?k std_process ?cmd = Returns 0 cmd' p'"
    by (auto simp: ending_of_cases)
  then have pid: "cmd_pid cmd' = 7"
    using start_command_launched [OF r] by (simp add: std_kernel_def)
  have "wait_or_whine
          ([] @- \<lparr>wp_ret = 7, wp_status = died_status 128, wp_errno = 0\<rparr>
             ## sconst \<lparr>wp_ret = - 1, wp_status = 0, wp_errno = 10\<rparr>) 7 = Some (- (128 mod 256))"
    by (rule died_status_translation) simp_all
  then show ?thesis
    using d r pid by (simp add: run_command_def finish_command_def ERR_defs)
qed

section \<open>The async worker\<close>

text \<open>
  C6. Once its one pipe is allocated, \<open>start_async\<close> forks. In the worker (\<^verbatim>\<open>fork\<close> gave 0)
  the read end is closed, the producer is called with the write end and the data, and the
  worker exits with 0 when the producer returned 0 and with 1 otherwise. In the caller the
  structure returned holds the child's id and the read end in \<open>out\<close>, the write end is
  closed, every other descriptor is as before, one pipe was asked for and one was made, and
  the value returned is 0.
\<close>

theorem start_async_runs_producer_in_worker:
  fixes async :: "'d async"
  assumes "sys_pipe k p = (Some (r, w), p1)"
  shows "(fork_ret k = 0 \<longrightarrow>
            start_async k p async =
              Exits (if fst (async_proc async w (async_data async) (sys_close r (p1\<lparr>children := []\<rparr>))) = 0
                     then 0 else 1)
                (snd (async_proc async w (async_data async) (sys_close r (p1\<lparr>children := []\<rparr>))))
            \<and> fds (sys_close r (p1\<lparr>children := []\<rparr>)) r = None
            \<and> fds (sys_close r (p1\<lparr>children := []\<rparr>)) w = Some (Pipe_Write (pipes_made p)))
       \<and> (0 < fork_ret k \<longrightarrow>
            start_async k p async =
              Returns 0 (async\<lparr>async_pid := fork_ret k, async_out := r\<rparr>)
                (proc_of (start_async k p async))
            \<and> fds (proc_of (start_async k p async)) r = Some (Pipe_Read (pipes_made p))
            \<and> fds (proc_of (start_async k p async)) w = None
            \<and> (\<forall>x. x \<noteq> r \<and> x \<noteq> w \<longrightarrow> fds (proc_of (start_async k p async)) x = fds p x)
            \<and> children (proc_of (start_async k p async)) = children p @ [fork_ret k]
            \<and> pipe_calls (proc_of (start_async k p async)) = Suc (pipe_calls p)
            \<and> pipes_made (proc_of (start_async k p async)) = Suc (pipes_made p))"
proof -
  from sys_pipe_Some [OF assms]
  have f: "fds p r = None" "fds p w = None" "r \<noteq> w" "0 \<le> r" "0 \<le> w"
    and p1: "p1 = p\<lparr>fds := (fds p)(r \<mapsto> Pipe_Read (pipes_made p), w \<mapsto> Pipe_Write (pipes_made p)),
                   pipe_calls := Suc (pipe_calls p), pipes_made := Suc (pipes_made p)\<rparr>"
    by simp_all
  show ?thesis
    using assms f
    by (simp add: start_async_def sys_fork_def Let_def split_beta fds_sys_close p1)
qed

theorem start_async_runs_producer_in_worker_witness:
  "ending_of (start_async (std_kernel 16 0) std_process
      \<lparr>async_proc = closing_producer, async_data = 5, async_out = 0, async_pid = 0\<rparr>) = Exited 1
   \<and> ending_of (start_async (std_kernel 16 0) std_process
      \<lparr>async_proc = closing_producer, async_data = 0, async_out = 0, async_pid = 0\<rparr>) = Exited 0
   \<and> ending_of (start_async (std_kernel 16 7) std_process
      \<lparr>async_proc = closing_producer, async_data = 5, async_out = 0, async_pid = 0\<rparr>) = Returned 0
   \<and> map_option async_out (returned (start_async (std_kernel 16 7) std_process
      \<lparr>async_proc = closing_producer, async_data = 5, async_out = 0, async_pid = 0\<rparr>)) = Some 3
   \<and> fds (proc_of (start_async (std_kernel 16 7) std_process
      \<lparr>async_proc = closing_producer, async_data = 5, async_out = 0, async_pid = 0\<rparr>)) 3
        = Some (Pipe_Read 0)
   \<and> fds (proc_of (start_async (std_kernel 16 7) std_process
      \<lparr>async_proc = closing_producer, async_data = 5, async_out = 0, async_pid = 0\<rparr>)) 4 = None"
proof -
  have "fst (sys_pipe (std_kernel 16 7) std_process) = Some (3, 4)"
    by code_simp
  then obtain p1 where a: "sys_pipe (std_kernel 16 7) std_process = (Some (3, 4), p1)"
    by (cases "sys_pipe (std_kernel 16 7) std_process") auto
  have "std_kernel 16 0 = (std_kernel 16 7)\<lparr>fork_ret := 0\<rparr>"
    by (simp add: std_kernel_def)
  with a have b: "sys_pipe (std_kernel 16 0) std_process = (Some (3, 4), p1)"
    by simp
  have c: "fork_ret (std_kernel 16 0) = 0" "0 < fork_ret (std_kernel 16 7)"
    "pipes_made std_process = 0"
    by (simp_all add: std_kernel_def std_process_def)
  let ?five = "\<lparr>async_proc = closing_producer, async_data = 5 :: int, async_out = 0, async_pid = 0\<rparr>"
  let ?zero = "\<lparr>async_proc = closing_producer, async_data = 0 :: int, async_out = 0, async_pid = 0\<rparr>"
  from start_async_runs_producer_in_worker [OF b, of ?five] c(1)
  have w5: "ending_of (start_async (std_kernel 16 0) std_process ?five) = Exited 1"
    by (simp add: closing_producer_def)
  from start_async_runs_producer_in_worker [OF b, of ?zero] c(1)
  have w0: "ending_of (start_async (std_kernel 16 0) std_process ?zero) = Exited 0"
    by (simp add: closing_producer_def)
  from start_async_runs_producer_in_worker [OF a, of ?five] c(2)
  have e: "start_async (std_kernel 16 7) std_process ?five =
      Returns 0 (?five\<lparr>async_pid := fork_ret (std_kernel 16 7), async_out := 3\<rparr>)
        (proc_of (start_async (std_kernel 16 7) std_process ?five))"
    and f: "fds (proc_of (start_async (std_kernel 16 7) std_process ?five)) 3
              = Some (Pipe_Read (pipes_made std_process))"
      "fds (proc_of (start_async (std_kernel 16 7) std_process ?five)) 4 = None"
    by blast+
  have "ending_of (start_async (std_kernel 16 7) std_process ?five) = Returned 0"
    "map_option async_out (returned (start_async (std_kernel 16 7) std_process ?five)) = Some 3"
    by (subst e, simp)+
  with w5 w0 f c(3) show ?thesis
    by simp
qed

text \<open>
  C7. \<open>finish_async\<close> returns \<open>- 1\<close> when the translator's value for the worker's id is
  not 0 and 0 when it is 0, so it returns a negative value exactly when the translator
  reports something other than success. A producer that comes back with \<open>ret\<close> makes the
  worker exit with 1 when \<open>ret\<close> is not 0 and with 0 when it is; once the kernel reports
  that exit for the worker's id, \<open>finish_async\<close> on the started task returns \<open>- 1\<close> in the
  first case and 0 in the second.
\<close>

theorem finish_async_reports_worker_failure:
  fixes async :: "'d async"
  shows "(\<forall>c. wait_or_whine answers (async_pid async) = Some c \<longrightarrow>
            finish_async answers async = Some (if c = 0 then 0 else - 1))
       \<and> ((\<exists>v. finish_async answers async = Some v \<and> v < 0)
            \<longleftrightarrow> (\<exists>c. wait_or_whine answers (async_pid async) = Some c \<and> c \<noteq> 0))
       \<and> (\<forall>r w p1 ret q intr e rest.
            sys_pipe k p = (Some (r, w), p1) \<and> 0 < fork_ret k
            \<and> async_proc async w (async_data async) (sys_close r (p1\<lparr>children := []\<rparr>)) = (ret, q)
            \<and> list_all interrupted intr \<longrightarrow>
            start_async (k\<lparr>fork_ret := 0\<rparr>) p async = Exits (if ret \<noteq> 0 then 1 else 0) q
            \<and> (\<exists>started p'. start_async k p async = Returns 0 started p'
                 \<and> finish_async
                      (intr @- \<lparr>wp_ret = async_pid started,
                                wp_status = W_EXITCODE (if ret \<noteq> 0 then 1 else 0),
                                wp_errno = e\<rparr> ## rest) started
                    = Some (if ret \<noteq> 0 then - 1 else 0)))"
proof -
  have one: "finish_async answers async = Some (if c = 0 then 0 else - 1)"
    if "wait_or_whine answers (async_pid async) = Some c" for c
    using that by (simp add: finish_async_def error_def)
  have two: "start_async (k\<lparr>fork_ret := 0\<rparr>) p async = Exits (if ret \<noteq> 0 then 1 else 0) q
            \<and> (\<exists>started p'. start_async k p async = Returns 0 started p'
                 \<and> finish_async
                      (intr @- \<lparr>wp_ret = async_pid started,
                                wp_status = W_EXITCODE (if ret \<noteq> 0 then 1 else 0),
                                wp_errno = e\<rparr> ## rest) started
                    = Some (if ret \<noteq> 0 then - 1 else 0))"
    if a: "sys_pipe k p = (Some (r, w), p1) \<and> 0 < fork_ret k
            \<and> async_proc async w (async_data async) (sys_close r (p1\<lparr>children := []\<rparr>)) = (ret, q)
            \<and> list_all interrupted intr"
    for r w p1 ret q intr e rest
  proof -
    have child: "start_async (k\<lparr>fork_ret := 0\<rparr>) p async = Exits (if ret \<noteq> 0 then 1 else 0) q"
      using a by (simp add: start_async_def sys_fork_def Let_def)
    let ?started = "async\<lparr>async_pid := fork_ret k, async_out := r\<rparr>"
    have parent: "start_async k p async = Returns 0 ?started (sys_close w (p1\<lparr>children := children p1 @ [fork_ret k]\<rparr>))"
      using a by (simp add: start_async_def sys_fork_def Let_def)
    have "\<not> interrupted \<lparr>wp_ret = fork_ret k, wp_status = W_EXITCODE (if ret \<noteq> 0 then 1 else 0), wp_errno = e\<rparr>"
      using a by (simp add: interrupted_def)
    then have "wait_or_whine
        (intr @- \<lparr>wp_ret = fork_ret k, wp_status = W_EXITCODE (if ret \<noteq> 0 then 1 else 0), wp_errno = e\<rparr> ## rest)
        (fork_ret k) = Some (if ret \<noteq> 0 then - 1 else 0)"
      using a
      by (simp add: wait_or_whine_retries wait_or_whine_answer WIFEXITED_exit
          WIFEXITED_not_signaled WEXITSTATUS_exit)
    then have "finish_async
        (intr @- \<lparr>wp_ret = async_pid ?started, wp_status = W_EXITCODE (if ret \<noteq> 0 then 1 else 0), wp_errno = e\<rparr> ## rest)
        ?started = Some (if ret \<noteq> 0 then - 1 else 0)"
      by (simp add: finish_async_def error_def)
    with child parent show ?thesis
      by blast
  qed
  have iff: "(\<exists>v. finish_async answers async = Some v \<and> v < 0)
      \<longleftrightarrow> (\<exists>c. wait_or_whine answers (async_pid async) = Some c \<and> c \<noteq> 0)"
    by (cases "wait_or_whine answers (async_pid async)") (simp_all add: finish_async_def error_def)
  from one two iff show ?thesis
    by blast
qed

theorem finish_async_reports_worker_failure_witness:
  "finish_async
     ([\<lparr>wp_ret = - 1, wp_status = 0, wp_errno = 4\<rparr>]
        @- \<lparr>wp_ret = 7, wp_status = W_EXITCODE 1, wp_errno = 0\<rparr>
        ## sconst \<lparr>wp_ret = - 1, wp_status = 0, wp_errno = 10\<rparr>)
     \<lparr>async_proc = closing_producer, async_data = 5, async_out = 3, async_pid = 7\<rparr> = Some (- 1)
   \<and> finish_async
     ([\<lparr>wp_ret = - 1, wp_status = 0, wp_errno = 4\<rparr>]
        @- \<lparr>wp_ret = 7, wp_status = W_EXITCODE 0, wp_errno = 0\<rparr>
        ## sconst \<lparr>wp_ret = - 1, wp_status = 0, wp_errno = 10\<rparr>)
     \<lparr>async_proc = closing_producer, async_data = 0, async_out = 3, async_pid = 7\<rparr> = Some 0
   \<and> ending_of (start_async ((std_kernel 16 7)\<lparr>fork_ret := 0\<rparr>) std_process
        \<lparr>async_proc = closing_producer, async_data = 5, async_out = 0, async_pid = 0\<rparr>) = Exited 1
   \<and> (\<exists>started p'.
        start_async (std_kernel 16 7) std_process
          \<lparr>async_proc = closing_producer, async_data = 5, async_out = 0, async_pid = 0\<rparr>
          = Returns 0 started p'
        \<and> finish_async
          ([\<lparr>wp_ret = - 1, wp_status = 0, wp_errno = 4\<rparr>]
             @- \<lparr>wp_ret = async_pid started, wp_status = W_EXITCODE 1, wp_errno = 0\<rparr>
             ## sconst \<lparr>wp_ret = - 1, wp_status = 0, wp_errno = 10\<rparr>) started = Some (- 1))"
proof -
  let ?intr = "[\<lparr>wp_ret = - 1, wp_status = 0, wp_errno = 4\<rparr>]"
  let ?rest = "sconst \<lparr>wp_ret = - 1, wp_status = 0, wp_errno = 10\<rparr>"
  let ?five = "\<lparr>async_proc = closing_producer, async_data = 5 :: int, async_out = 0, async_pid = 0\<rparr>"
  have i: "list_all interrupted ?intr"
    by (simp add: interrupted_def EINTR_def)
  have n: "\<not> interrupted \<lparr>wp_ret = 7, wp_status = s, wp_errno = 0\<rparr>" for s
    by (simp add: interrupted_def)
  have w1: "wait_or_whine (?intr @- \<lparr>wp_ret = 7, wp_status = W_EXITCODE 1, wp_errno = 0\<rparr> ## ?rest) 7
      = Some (- 1)"
    using wait_or_whine_retries [OF i] n
    by (simp add: wait_or_whine_answer WIFEXITED_exit WIFEXITED_not_signaled WEXITSTATUS_exit)
  have w0: "wait_or_whine (?intr @- \<lparr>wp_ret = 7, wp_status = W_EXITCODE 0, wp_errno = 0\<rparr> ## ?rest) 7
      = Some 0"
    using wait_or_whine_retries [OF i] n
    by (simp add: wait_or_whine_answer WIFEXITED_exit WIFEXITED_not_signaled WEXITSTATUS_exit)
  have "fst (sys_pipe (std_kernel 16 7) std_process) = Some (3, 4)"
    by code_simp
  then obtain p1 where a: "sys_pipe (std_kernel 16 7) std_process = (Some (3, 4), p1)"
    by (cases "sys_pipe (std_kernel 16 7) std_process") auto
  have b: "0 < fork_ret (std_kernel 16 7)"
    "async_proc ?five 4 (async_data ?five) (sys_close 3 (p1\<lparr>children := []\<rparr>))
       = (5, sys_close 4 (sys_close 3 (p1\<lparr>children := []\<rparr>)))"
    by (simp_all add: std_kernel_def closing_producer_def)
  note t = finish_async_reports_worker_failure
  from t [of _ "\<lparr>async_proc = closing_producer, async_data = 5 :: int, async_out = 3, async_pid = 7\<rparr>"] w1
  have r1: "finish_async (?intr @- \<lparr>wp_ret = 7, wp_status = W_EXITCODE 1, wp_errno = 0\<rparr> ## ?rest)
      \<lparr>async_proc = closing_producer, async_data = 5 :: int, async_out = 3, async_pid = 7\<rparr> = Some (- 1)"
    by simp
  from t [of _ "\<lparr>async_proc = closing_producer, async_data = 0 :: int, async_out = 3, async_pid = 7\<rparr>"] w0
  have r0: "finish_async (?intr @- \<lparr>wp_ret = 7, wp_status = W_EXITCODE 0, wp_errno = 0\<rparr> ## ?rest)
      \<lparr>async_proc = closing_producer, async_data = 0 :: int, async_out = 3, async_pid = 7\<rparr> = Some 0"
    by simp
  from t [of _ ?five "std_kernel 16 7" std_process] a b i
  have r2: "start_async ((std_kernel 16 7)\<lparr>fork_ret := 0\<rparr>) std_process ?five
        = Exits (if (5 :: int) \<noteq> 0 then 1 else 0) (sys_close 4 (sys_close 3 (p1\<lparr>children := []\<rparr>)))
      \<and> (\<exists>started p'. start_async (std_kernel 16 7) std_process ?five = Returns 0 started p'
            \<and> finish_async
                 (?intr @- \<lparr>wp_ret = async_pid started,
                            wp_status = W_EXITCODE (if (5 :: int) \<noteq> 0 then 1 else 0),
                            wp_errno = 0\<rparr> ## ?rest) started
               = Some (if (5 :: int) \<noteq> 0 then - 1 else 0))"
    by blast
  from r0 r1 r2 show ?thesis
    by simp
qed

section \<open>The wrappers and the inherited streams\<close>

lemma in_child_zero_fds:
  assumes "cmd_in cmd = 0" and "cmd_out cmd = 0" and "cmd_err cmd = 0"
  shows "\<not> no_stdin cmd \<Longrightarrow>
           fds (proc_of (in_child k cmd False fi False fo False fe p)) 0 = fds p 0"
    and "\<not> no_stdout cmd \<Longrightarrow> \<not> stdout_to_stderr cmd \<Longrightarrow>
           fds (proc_of (in_child k cmd False fi False fo False fe p)) 1 = fds p 1"
    and "\<not> no_stderr cmd \<Longrightarrow>
           fds (proc_of (in_child k cmd False fi False fo False fe p)) 2 = fds p 2"
    and "3 \<le> x \<Longrightarrow> fds (proc_of (in_child k cmd False fi False fo False fe p)) x = fds p x"
  using assms
  by (simp_all add: in_child_def child_stdin_def child_stdout_def child_stderr_def
      fds_dup_devnull_other fds_sys_dup2_other)

lemma in_parent_zero:
  assumes "cmd_in cmd = 0" and "cmd_out cmd = 0"
  shows "in_parent cmd False fi False fo False fe p = Returns 0 cmd p"
  using assms by (simp add: in_parent_def)

text \<open>
  C10. The three wrappers run \<open>run_command\<close> on the structure that
  \<open>prepare_run_command_v_opt\<close> clears, with \<open>dir\<close> and \<open>env\<close> set or not; its \<open>in\<close>, \<open>out\<close>
  and \<open>err\<close> are 0. A launch of that structure asks for no pipe, whatever the kernel
  answers. In the parent it returns 0 and leaves the process as it was but for the child
  recorded: no descriptor is closed. In the child, descriptor 0 is the caller's unless the
  no-stdin bit is set, descriptor 1 is the caller's unless the stdout-to-stderr bit is set,
  and descriptor 2 and all above are the caller's: a field of 0 means the stream is
  inherited.
\<close>

theorem wrappers_take_no_pipe_and_inherit:
  fixes k answers p argv opt dir env
  defines "cmd \<equiv> (prepare_run_command_v_opt argv opt)\<lparr>cmd_dir := dir, cmd_env := env\<rparr>"
  shows "run_command_v_opt k answers p argv opt
           = run_command_v_opt_cd_env k answers p argv opt None None
       \<and> run_command_v_opt_cd k answers p argv opt dir
           = run_command_v_opt_cd_env k answers p argv opt dir None
       \<and> run_command_v_opt_cd_env k answers p argv opt dir env = run_command k answers p cmd
       \<and> cmd_in cmd = 0 \<and> cmd_out cmd = 0 \<and> cmd_err cmd = 0
       \<and> pipe_calls (proc_of (start_command k p cmd)) = pipe_calls p
       \<and> pipes_made (proc_of (start_command k p cmd)) = pipes_made p
       \<and> (0 < fork_ret k \<longrightarrow>
            start_command k p cmd =
              Returns 0 (cmd\<lparr>cmd_pid := fork_ret k\<rparr>) (p\<lparr>children := children p @ [fork_ret k]\<rparr>))
       \<and> (fork_ret k = 0 \<longrightarrow>
            (opt AND RUN_COMMAND_NO_STDIN = 0 \<longrightarrow> fds (proc_of (start_command k p cmd)) 0 = fds p 0)
            \<and> (opt AND RUN_COMMAND_STDOUT_TO_STDERR = 0 \<longrightarrow>
                  fds (proc_of (start_command k p cmd)) 1 = fds p 1)
            \<and> fds (proc_of (start_command k p cmd)) 2 = fds p 2
            \<and> (\<forall>x. 3 \<le> x \<longrightarrow> fds (proc_of (start_command k p cmd)) x = fds p x))
       \<and> (\<forall>out. run_command k answers p cmd = Some out \<longrightarrow>
            pipe_calls (proc_of out) = pipe_calls p \<and> pipes_made (proc_of out) = pipes_made p
            \<and> (\<forall>c cmd' p'. out = Returns c cmd' p' \<longrightarrow> fds p' = fds p))"
proof -
  have z: "cmd_in cmd = 0" "cmd_out cmd = 0" "cmd_err cmd = 0"
    and fl: "no_stdin cmd = (opt AND RUN_COMMAND_NO_STDIN \<noteq> 0)"
      "stdout_to_stderr cmd = (opt AND RUN_COMMAND_STDOUT_TO_STDERR \<noteq> 0)"
      "\<not> no_stdout cmd" "\<not> no_stderr cmd"
    by (simp_all add: cmd_def prepare_run_command_v_opt_def)
  have w: "run_command_v_opt k answers p argv opt
           = run_command_v_opt_cd_env k answers p argv opt None None"
    "run_command_v_opt_cd k answers p argv opt dir
           = run_command_v_opt_cd_env k answers p argv opt dir None"
    "run_command_v_opt_cd_env k answers p argv opt dir env = run_command k answers p cmd"
    by (simp_all add: run_command_v_opt_def run_command_v_opt_cd_def
        run_command_v_opt_cd_env_def cmd_def prepare_run_command_v_opt_def)
  have s: "start_command k p cmd =
      start_command_fork k cmd False no_pipe False no_pipe False no_pipe p"
    using z by (simp add: start_command_no_need)
  have counters: "pipe_calls (proc_of (start_command k p cmd)) = pipe_calls p"
    "pipes_made (proc_of (start_command k p cmd)) = pipes_made p"
    by (simp_all add: s start_command_fork_eq)
  have parent: "start_command k p cmd =
      Returns 0 (cmd\<lparr>cmd_pid := fork_ret k\<rparr>) (p\<lparr>children := children p @ [fork_ret k]\<rparr>)"
    if "0 < fork_ret k"
    using that z by (simp add: s start_command_fork_eq in_parent_zero)
  have child: "(opt AND RUN_COMMAND_NO_STDIN = 0 \<longrightarrow> fds (proc_of (start_command k p cmd)) 0 = fds p 0)
            \<and> (opt AND RUN_COMMAND_STDOUT_TO_STDERR = 0 \<longrightarrow>
                  fds (proc_of (start_command k p cmd)) 1 = fds p 1)
            \<and> fds (proc_of (start_command k p cmd)) 2 = fds p 2
            \<and> (\<forall>x. 3 \<le> x \<longrightarrow> fds (proc_of (start_command k p cmd)) x = fds p x)"
    if "fork_ret k = 0"
    using that z fl
      in_child_zero_fds [where cmd = "cmd\<lparr>cmd_pid := 0\<rparr>" and k = k and fi = no_pipe
        and fo = no_pipe and fe = no_pipe and p = "p\<lparr>children := []\<rparr>"]
    by (simp add: s start_command_fork_eq)
  have failed: "fds (proc_of (start_command k p cmd)) = fds p" if "fork_ret k < 0"
    using that by (simp add: s start_command_fork_eq)
  have run: "pipe_calls (proc_of out) = pipe_calls p \<and> pipes_made (proc_of out) = pipes_made p
            \<and> (\<forall>c cmd' p'. out = Returns c cmd' p' \<longrightarrow> fds p' = fds p)"
    if r: "run_command k answers p cmd = Some out" for out
  proof -
    have same: "proc_of out = proc_of (start_command k p cmd)"
      using r by (rule run_command_proc)
    have "fds (proc_of (start_command k p cmd)) = fds p" if "out = Returns c cmd' p'" for c cmd' p'
    proof -
      from r that have "fork_ret k \<noteq> 0"
        by (auto simp: run_command_def s start_command_fork_eq split: outcome.splits if_splits)
      then consider "fork_ret k < 0" | "0 < fork_ret k"
        by linarith
      then show ?thesis
        using failed parent by cases simp_all
    qed
    then show ?thesis
      using counters same by auto
  qed
  from w z counters parent child run show ?thesis
    by blast
qed

theorem wrappers_take_no_pipe_and_inherit_witness:
  "pipe_calls (proc_of (start_command (std_kernel 16 0) std_process
      ((prepare_run_command_v_opt [''true''] 4)\<lparr>cmd_dir := Some ''/tmp'', cmd_env := None\<rparr>))) = 0
   \<and> fds (proc_of (start_command (std_kernel 16 0) std_process
      ((prepare_run_command_v_opt [''true''] 4)\<lparr>cmd_dir := Some ''/tmp'', cmd_env := None\<rparr>))) 0
        = Some (Other_File 0)
   \<and> fds (proc_of (start_command (std_kernel 16 0) std_process
      ((prepare_run_command_v_opt [''true''] 1)\<lparr>cmd_dir := Some ''/tmp'', cmd_env := None\<rparr>))) 1
        = Some (Other_File 1)
   \<and> fds (proc_of (start_command (std_kernel 16 0) std_process
      ((prepare_run_command_v_opt [''true''] 1)\<lparr>cmd_dir := Some ''/tmp'', cmd_env := None\<rparr>))) 3
        = None
   \<and> ending_of (start_command (std_kernel 16 7) std_process
      ((prepare_run_command_v_opt [''true''] 4)\<lparr>cmd_dir := Some ''/tmp'', cmd_env := None\<rparr>))
        = Returned 0
   \<and> map_option (\<lambda>out. (ending_of out, pipe_calls (proc_of out), fds (proc_of out) = fds std_process))
        (run_command_v_opt_cd (std_kernel 16 7)
          (\<lparr>wp_ret = 7, wp_status = W_EXITCODE 0, wp_errno = 0\<rparr>
             ## sconst \<lparr>wp_ret = - 1, wp_status = 0, wp_errno = 10\<rparr>)
          std_process [''true''] 4 (Some ''/tmp''))
        = Some (Returned 0, 0, True)"
proof -
  let ?k0 = "std_kernel 16 0" and ?k7 = "std_kernel 16 7"
  let ?answers = "\<lparr>wp_ret = 7, wp_status = W_EXITCODE 0, wp_errno = 0\<rparr>
             ## sconst \<lparr>wp_ret = - 1, wp_status = 0, wp_errno = 10\<rparr>"
  let ?cmd4 = "(prepare_run_command_v_opt [''true''] 4)\<lparr>cmd_dir := Some ''/tmp'', cmd_env := None\<rparr>"
  let ?cmd1 = "(prepare_run_command_v_opt [''true''] 1)\<lparr>cmd_dir := Some ''/tmp'', cmd_env := None\<rparr>"
  have h: "fork_ret ?k0 = 0" "0 < fork_ret ?k7" "fork_ret ?k7 = 7"
    "(4 :: int) AND RUN_COMMAND_NO_STDIN = 0" "(1 :: int) AND RUN_COMMAND_STDOUT_TO_STDERR = 0"
    "pipe_calls std_process = 0"
    "fds std_process 0 = Some (Other_File 0)" "fds std_process 1 = Some (Other_File 1)"
    "fds std_process 3 = None"
    by (simp_all add: std_kernel_def std_process_def RUN_COMMAND_NO_STDIN_def
        RUN_COMMAND_STDOUT_TO_STDERR_def)
  note c4 = wrappers_take_no_pipe_and_inherit [of ?k0 ?answers std_process "[''true'']" 4 "Some ''/tmp''" None]
  note c1 = wrappers_take_no_pipe_and_inherit [of ?k0 ?answers std_process "[''true'']" 1 "Some ''/tmp''" None]
  note p4 = wrappers_take_no_pipe_and_inherit [of ?k7 ?answers std_process "[''true'']" 4 "Some ''/tmp''" None]
  have a: "pipe_calls (proc_of (start_command ?k0 std_process ?cmd4)) = 0"
    "fds (proc_of (start_command ?k0 std_process ?cmd4)) 0 = Some (Other_File 0)"
    using c4 h by simp_all
  have b: "fds (proc_of (start_command ?k0 std_process ?cmd1)) 1 = Some (Other_File 1)"
    "fds (proc_of (start_command ?k0 std_process ?cmd1)) 3 = None"
    using c1 h by simp_all
  from p4 h(2) have s: "start_command ?k7 std_process ?cmd4 =
      Returns 0 (?cmd4\<lparr>cmd_pid := fork_ret ?k7\<rparr>)
        (std_process\<lparr>children := children std_process @ [fork_ret ?k7]\<rparr>)"
    by blast
  have "\<not> interrupted \<lparr>wp_ret = 7, wp_status = W_EXITCODE 0, wp_errno = 0\<rparr>"
    by (simp add: interrupted_def)
  then have "wait_or_whine ?answers 7 = Some 0"
    by (simp add: wait_or_whine_answer WIFEXITED_exit WIFEXITED_not_signaled WEXITSTATUS_exit)
  then have r: "run_command ?k7 ?answers std_process ?cmd4 =
      Some (Returns 0 (?cmd4\<lparr>cmd_pid := fork_ret ?k7\<rparr>)
        (std_process\<lparr>children := children std_process @ [fork_ret ?k7]\<rparr>))"
    by (simp add: run_command_def s finish_command_def h(3))
  have "run_command_v_opt_cd ?k7 ?answers std_process [''true''] 4 (Some ''/tmp'') =
      run_command ?k7 ?answers std_process ?cmd4"
    using p4 by (simp add: run_command_v_opt_cd_env_def)
  with r have "map_option (\<lambda>out. (ending_of out, pipe_calls (proc_of out), fds (proc_of out) = fds std_process))
        (run_command_v_opt_cd ?k7 ?answers std_process [''true''] 4 (Some ''/tmp''))
        = Some (Returned 0, 0, True)"
    using h(6) by simp
  moreover have "ending_of (start_command ?k7 std_process ?cmd4) = Returned 0"
    by (subst s) simp
  ultimately show ?thesis
    using a b by simp
qed

section \<open>Explicit descriptors\<close>

lemma child_stdin_other:
  assumes "x \<noteq> 0" and "ni \<Longrightarrow> x \<noteq> fst fi \<and> x \<noteq> snd fi"
    and "\<not> no_stdin cmd \<Longrightarrow> \<not> ni \<Longrightarrow> cmd_in cmd \<noteq> 0 \<Longrightarrow> x \<noteq> cmd_in cmd"
  shows "fds (child_stdin k cmd ni fi p) x = fds p x"
  using assms
  by (auto simp: child_stdin_def fds_dup_devnull_other fds_close_pair fds_sys_close
      fds_sys_dup2_other)

lemma child_stdout_other:
  assumes "x \<noteq> 1" and "no \<Longrightarrow> x \<noteq> fst fo \<and> x \<noteq> snd fo"
    and "\<not> no_stdout cmd \<Longrightarrow> \<not> stdout_to_stderr cmd \<Longrightarrow> \<not> no \<Longrightarrow> 1 < cmd_out cmd \<Longrightarrow>
         x \<noteq> cmd_out cmd"
  shows "fds (child_stdout k cmd no fo p) x = fds p x"
  using assms
  by (auto simp: child_stdout_def fds_dup_devnull_other fds_close_pair fds_sys_close
      fds_sys_dup2_other)

lemma child_stderr_other:
  assumes "x \<noteq> 2" and "ne \<Longrightarrow> x \<noteq> fst fe \<and> x \<noteq> snd fe"
  shows "fds (child_stderr k cmd ne fe p) x = fds p x"
  using assms
  by (auto simp: child_stderr_def fds_dup_devnull_other fds_close_pair fds_sys_dup2_other)

lemma child_stdin_explicit:
  assumes "\<not> no_stdin cmd" and "\<not> ni" and "0 < cmd_in cmd" and "fds p (cmd_in cmd) = Some f"
    and "0 < nofile k"
  shows "fds (child_stdin k cmd ni fi p) 0 = Some f"
  using assms by (simp add: child_stdin_def fds_sys_close fds_sys_dup2_target)

lemma child_stdout_explicit:
  assumes "\<not> no_stdout cmd" and "\<not> stdout_to_stderr cmd" and "\<not> no" and "1 < cmd_out cmd"
    and "fds p (cmd_out cmd) = Some f" and "1 < nofile k"
  shows "fds (child_stdout k cmd no fo p) 1 = Some f"
  using assms by (simp add: child_stdout_def fds_sys_close fds_sys_dup2_target)

lemma explicit_stdin_bound:
  assumes "fork_ret k = 0" and "\<not> gave_up p (start_command k p cmd)"
    and "\<not> no_stdin cmd" and "0 < cmd_in cmd" and "fds p (cmd_in cmd) = Some f"
    and "fds p 0 \<noteq> None" and "0 < nofile k"
  shows "fds (proc_of (start_command k p cmd)) 0 = Some f"
proof -
  define ni where "ni = (\<not> no_stdin cmd \<and> cmd_in cmd < 0)"
  define no where "no = (\<not> no_stdout cmd \<and> \<not> stdout_to_stderr cmd \<and> cmd_out cmd < 0)"
  define ne where "ne = (\<not> no_stderr cmd \<and> cmd_err cmd < 0)"
  from assms(1,2) ni_def no_def ne_def
  obtain fdin fdout fderr p1 p2 p3 where
    t: "pipe_taken ni fdin p p1" "pipe_taken no fdout p1 p2" "pipe_taken ne fderr p2 p3"
    and eq: "start_command k p cmd =
       in_child k
         (cmd\<lparr>cmd_in := (if ni then snd fdin else cmd_in cmd),
              cmd_out := (if no then fst fdout else cmd_out cmd),
              cmd_err := (if ne then fst fderr else cmd_err cmd),
              cmd_pid := 0\<rparr>)
         ni fdin no fdout ne fderr (p3\<lparr>children := []\<rparr>)"
    by (rule start_command_in_child)
  let ?cmd = "cmd\<lparr>cmd_in := (if ni then snd fdin else cmd_in cmd),
              cmd_out := (if no then fst fdout else cmd_out cmd),
              cmd_err := (if ne then fst fderr else cmd_err cmd),
              cmd_pid := 0\<rparr>"
  let ?p = "p3\<lparr>children := []\<rparr>"
  have nni: "\<not> ni"
    using assms(4) by (simp add: ni_def)
  have o1: "fds p1 0 = fds p 0" "fds p1 (cmd_in cmd) = Some f"
    using pipe_taken_apart(1) [OF t(1)] assms(5,6) by simp_all
  have o2: "fds p2 0 = fds p 0" "fds p2 (cmd_in cmd) = Some f" "no \<Longrightarrow> 0 \<noteq> fst fdout \<and> 0 \<noteq> snd fdout"
    using pipe_taken_apart [OF t(2), of 0] pipe_taken_apart(1) [OF t(2), of "cmd_in cmd"] o1 assms(6)
    by simp_all
  have o3: "fds p3 (cmd_in cmd) = Some f" "ne \<Longrightarrow> 0 \<noteq> fst fderr \<and> 0 \<noteq> snd fderr"
    using pipe_taken_apart [OF t(3), of 0] pipe_taken_apart(1) [OF t(3), of "cmd_in cmd"] o2 assms(6)
    by simp_all
  have "fds (child_stdin k ?cmd ni fdin ?p) 0 = Some f"
    by (insert assms(3,4,7) nni o3(1), rule child_stdin_explicit) simp_all
  moreover have "fds (child_stdout k ?cmd no fdout (child_stdin k ?cmd ni fdin ?p)) 0
      = fds (child_stdin k ?cmd ni fdin ?p) 0"
    by (insert o2(3), rule child_stdout_other) auto
  moreover have "fds (child_stderr k ?cmd ne fderr (child_stdout k ?cmd no fdout (child_stdin k ?cmd ni fdin ?p))) 0
      = fds (child_stdout k ?cmd no fdout (child_stdin k ?cmd ni fdin ?p)) 0"
    by (insert o3(2), rule child_stderr_other) auto
  ultimately show ?thesis
    unfolding eq by (simp add: in_child_def)
qed

lemma explicit_stdout_bound:
  assumes "fork_ret k = 0" and "\<not> gave_up p (start_command k p cmd)"
    and "\<not> no_stdout cmd" and "\<not> stdout_to_stderr cmd" and "1 < cmd_out cmd"
    and "fds p (cmd_out cmd) = Some f" and "fds p 1 \<noteq> None" and "1 < nofile k"
    and "no_stdin cmd \<or> cmd_in cmd \<noteq> cmd_out cmd"
  shows "fds (proc_of (start_command k p cmd)) 1 = Some f"
proof -
  define ni where "ni = (\<not> no_stdin cmd \<and> cmd_in cmd < 0)"
  define no where "no = (\<not> no_stdout cmd \<and> \<not> stdout_to_stderr cmd \<and> cmd_out cmd < 0)"
  define ne where "ne = (\<not> no_stderr cmd \<and> cmd_err cmd < 0)"
  from assms(1,2) ni_def no_def ne_def
  obtain fdin fdout fderr p1 p2 p3 where
    t: "pipe_taken ni fdin p p1" "pipe_taken no fdout p1 p2" "pipe_taken ne fderr p2 p3"
    and eq: "start_command k p cmd =
       in_child k
         (cmd\<lparr>cmd_in := (if ni then snd fdin else cmd_in cmd),
              cmd_out := (if no then fst fdout else cmd_out cmd),
              cmd_err := (if ne then fst fderr else cmd_err cmd),
              cmd_pid := 0\<rparr>)
         ni fdin no fdout ne fderr (p3\<lparr>children := []\<rparr>)"
    by (rule start_command_in_child)
  let ?cmd = "cmd\<lparr>cmd_in := (if ni then snd fdin else cmd_in cmd),
              cmd_out := (if no then fst fdout else cmd_out cmd),
              cmd_err := (if ne then fst fderr else cmd_err cmd),
              cmd_pid := 0\<rparr>"
  let ?p = "p3\<lparr>children := []\<rparr>"
  let ?out = "cmd_out cmd"
  have nno: "\<not> no"
    using assms(5) by (simp add: no_def)
  have o1: "fds p1 1 = fds p 1" "fds p1 ?out = Some f" "ni \<Longrightarrow> ?out \<noteq> fst fdin \<and> ?out \<noteq> snd fdin"
    using pipe_taken_apart [OF t(1), of ?out] pipe_taken_apart(1) [OF t(1), of 1] assms(6,7)
    by simp_all
  have o2: "fds p2 1 = fds p 1" "fds p2 ?out = Some f"
    using pipe_taken_apart(1) [OF t(2), of ?out] pipe_taken_apart(1) [OF t(2), of 1] o1 assms(7)
    by simp_all
  have o3: "fds p3 ?out = Some f" "ne \<Longrightarrow> 1 \<noteq> fst fderr \<and> 1 \<noteq> snd fderr"
    using pipe_taken_apart [OF t(3), of 1] pipe_taken_apart(1) [OF t(3), of ?out] o2 assms(7)
    by simp_all
  have "fds (child_stdin k ?cmd ni fdin ?p) ?out = fds ?p ?out"
    by (insert assms(5,9) o1(3) nno, rule child_stdin_other) (auto simp: ni_def)
  then have "fds (child_stdin k ?cmd ni fdin ?p) (cmd_out ?cmd) = Some f"
    using o3(1) nno by simp
  then have "fds (child_stdout k ?cmd no fdout (child_stdin k ?cmd ni fdin ?p)) 1 = Some f"
    using assms(3,4,5,8) nno by - (rule child_stdout_explicit, simp_all)
  moreover have "fds (child_stderr k ?cmd ne fderr (child_stdout k ?cmd no fdout (child_stdin k ?cmd ni fdin ?p))) 1
      = fds (child_stdout k ?cmd no fdout (child_stdin k ?cmd ni fdin ?p)) 1"
    by (insert o3(2), rule child_stderr_other) auto
  ultimately show ?thesis
    unfolding eq by (simp add: in_child_def)
qed

lemma in_child_reads:
  assumes "no_stdin c = no_stdin c'" and "no_stdout c = no_stdout c'" and "no_stderr c = no_stderr c'"
    and "stdout_to_stderr c = stdout_to_stderr c'" and "git_cmd c = git_cmd c'"
    and "cmd_in c = cmd_in c'" and "cmd_out c = cmd_out c'"
    and "cmd_dir c = cmd_dir c'" and "cmd_env c = cmd_env c'" and "cmd_argv c = cmd_argv c'"
  shows "in_child k c ni fi no fo ne fe p = in_child k c' ni fi no fo ne fe p"
proof -
  have "child_stdin k c ni fi p = child_stdin k c' ni fi p"
    using assms by (simp add: child_stdin_def)
  moreover have "child_stdout k c no fo q = child_stdout k c' no fo q" for q
    using assms by (simp add: child_stdout_def)
  moreover have "child_stderr k c ne fe q = child_stderr k c' ne fe q" for q
    using assms by (simp add: child_stderr_def)
  moreover have e: "child_env_exec k c q = child_env_exec k c' q" for q
    using assms by (simp add: child_env_exec_def Let_def)
  moreover have "child_exec k c q = child_exec k c' q" for q
    using assms by (simp add: child_exec_def e split: option.splits prod.splits)
  ultimately show ?thesis
    by (simp add: in_child_def)
qed

lemma err_ignored:
  assumes "0 \<le> cmd_err cmd" and "0 \<le> e"
  shows "but_err (start_command k p (cmd\<lparr>cmd_err := e\<rparr>)) = but_err (start_command k p cmd)"
proof -
  have f: "but_err (start_command_fork k (c\<lparr>cmd_err := e\<rparr>) ni fi no fo False fe q)
      = but_err (start_command_fork k c ni fi no fo False fe q)" for c ni fi no fo fe q
    using in_child_reads [of "c\<lparr>cmd_err := e, cmd_pid := 0\<rparr>" "c\<lparr>cmd_pid := 0\<rparr>" k ni fi no fo False fe]
    by (simp add: but_err_def start_command_fork_eq in_parent_def Let_def)
  have r: "but_err (start_command_err k (c\<lparr>cmd_err := e\<rparr>) ni fi no fo q)
      = but_err (start_command_err k c ni fi no fo q)" if "0 \<le> cmd_err c" for c ni fi no fo q
    using that assms(2) by (simp add: start_command_err_def f not_less [symmetric])
  have comm: "c\<lparr>cmd_err := e, cmd_out := x\<rparr> = c\<lparr>cmd_out := x, cmd_err := e\<rparr>"
    "c\<lparr>cmd_err := e, cmd_in := x\<rparr> = c\<lparr>cmd_in := x, cmd_err := e\<rparr>" for c :: child_process and x
    by (cases c; simp)+
  have o: "but_err (start_command_out k (c\<lparr>cmd_err := e\<rparr>) ni fi q)
      = but_err (start_command_out k c ni fi q)" if "0 \<le> cmd_err c" for c ni fi q
    using that r [of "c\<lparr>cmd_out := x\<rparr>" for x] r [of c]
    by (simp add: start_command_out_def but_err_def Let_def comm split: prod.splits option.splits)
  show ?thesis
    using assms(1) o [of "cmd\<lparr>cmd_in := x\<rparr>" for x] o [of cmd]
    by (simp add: start_command_def but_err_def Let_def comm split: prod.splits option.splits)
qed

text \<open>
  C5, as amended. In the child of a launch that took its pipes: an explicit descriptor for
  stdin (\<open>in\<close> above 0, no suppression) that is open in the caller is what descriptor 0
  names at the exec, and an explicit descriptor for stdout (\<open>out\<close> above 1, no suppression,
  no redirection) is what descriptor 1 names, as long as the standard descriptor was open
  at the launch and, for stdout, the stdin descriptor is not the same one. For stderr there
  is no such state: with \<open>err\<close> at 0 or above the launch goes as with any other such value,
  0 among them, in the parent and in the child alike, apart from the field itself; so with
  \<open>in\<close> and \<open>out\<close> at 0 the child's descriptor 2 is the caller's descriptor 2, whatever
  \<open>err\<close> names.
\<close>

theorem explicit_descriptor_for_in_and_out_only:
  fixes k p cmd
  defines "out \<equiv> start_command k p cmd"
  shows "(fork_ret k = 0 \<and> \<not> gave_up p out \<and> \<not> no_stdin cmd \<and> 0 < cmd_in cmd
          \<and> fds p (cmd_in cmd) \<noteq> None \<and> fds p 0 \<noteq> None \<and> 0 < nofile k
          \<longrightarrow> fds (proc_of out) 0 = fds p (cmd_in cmd))
       \<and> (fork_ret k = 0 \<and> \<not> gave_up p out \<and> \<not> no_stdout cmd \<and> \<not> stdout_to_stderr cmd
          \<and> 1 < cmd_out cmd \<and> fds p (cmd_out cmd) \<noteq> None \<and> fds p 1 \<noteq> None \<and> 1 < nofile k
          \<and> (no_stdin cmd \<or> cmd_in cmd \<noteq> cmd_out cmd)
          \<longrightarrow> fds (proc_of out) 1 = fds p (cmd_out cmd))
       \<and> (0 \<le> cmd_err cmd
          \<longrightarrow> (\<forall>e. 0 \<le> e \<longrightarrow> but_err (start_command k p (cmd\<lparr>cmd_err := e\<rparr>)) = but_err out))
       \<and> (fork_ret k = 0 \<and> 0 \<le> cmd_err cmd \<and> \<not> no_stderr cmd \<and> cmd_in cmd = 0 \<and> cmd_out cmd = 0
          \<longrightarrow> fds (proc_of out) 2 = fds p 2)"
proof -
  have a: "fds (proc_of out) 0 = fds p (cmd_in cmd)"
    if "fork_ret k = 0 \<and> \<not> gave_up p out \<and> \<not> no_stdin cmd \<and> 0 < cmd_in cmd
          \<and> fds p (cmd_in cmd) \<noteq> None \<and> fds p 0 \<noteq> None \<and> 0 < nofile k"
  proof -
    from that obtain f where "fds p (cmd_in cmd) = Some f"
      by auto
    with that explicit_stdin_bound [of k p cmd f] show ?thesis
      by (simp add: out_def)
  qed
  have b: "fds (proc_of out) 1 = fds p (cmd_out cmd)"
    if "fork_ret k = 0 \<and> \<not> gave_up p out \<and> \<not> no_stdout cmd \<and> \<not> stdout_to_stderr cmd
          \<and> 1 < cmd_out cmd \<and> fds p (cmd_out cmd) \<noteq> None \<and> fds p 1 \<noteq> None \<and> 1 < nofile k
          \<and> (no_stdin cmd \<or> cmd_in cmd \<noteq> cmd_out cmd)"
  proof -
    from that obtain f where "fds p (cmd_out cmd) = Some f"
      by auto
    with that explicit_stdout_bound [of k p cmd f] show ?thesis
      by (simp add: out_def)
  qed
  have c: "but_err (start_command k p (cmd\<lparr>cmd_err := e\<rparr>)) = but_err out"
    if "0 \<le> cmd_err cmd" "0 \<le> e" for e
    using that by (simp add: out_def err_ignored)
  have d: "fds (proc_of out) 2 = fds p 2"
    if h: "fork_ret k = 0 \<and> 0 \<le> cmd_err cmd \<and> \<not> no_stderr cmd \<and> cmd_in cmd = 0 \<and> cmd_out cmd = 0"
  proof -
    let ?cmd = "cmd\<lparr>cmd_err := 0\<rparr>"
    from h have "but_err (start_command k p ?cmd) = but_err out"
      by (simp add: c)
    then have "proc_of out = proc_of (start_command k p ?cmd)"
      by (simp add: but_err_def)
    also have "start_command k p ?cmd =
        start_command_fork k ?cmd False no_pipe False no_pipe False no_pipe p"
      using h by (simp add: start_command_no_need)
    finally show ?thesis
      using h in_child_zero_fds(3) [of "?cmd\<lparr>cmd_pid := 0\<rparr>" k no_pipe no_pipe no_pipe "p\<lparr>children := []\<rparr>"]
      by (simp add: start_command_fork_eq)
  qed
  from a b c d show ?thesis
    by blast
qed

text \<open>
  The claim as first stated has an explicit \<open>err\<close> bound to the child's stderr. With
  descriptor 5 open and \<open>err = 5\<close> the child's descriptor 2 is still the caller's, while
  \<open>in = 5\<close> and \<open>out = 5\<close> do rebind descriptors 0 and 1.
\<close>

theorem explicit_stderr_counterexample:
  "ending_of (start_command (std_kernel 16 0) (open_also 5 std_process) (plain_cmd\<lparr>cmd_err := 5\<rparr>))
     = Replaced False [''true'']
   \<and> fds (open_also 5 std_process) 5 = Some (Other_File 5)
   \<and> fds (proc_of (start_command (std_kernel 16 0) (open_also 5 std_process)
        (plain_cmd\<lparr>cmd_err := 5\<rparr>))) 2 = Some (Other_File 2)
   \<and> fds (proc_of (start_command (std_kernel 16 0) (open_also 5 std_process)
        (plain_cmd\<lparr>cmd_in := 5\<rparr>))) 0 = Some (Other_File 5)
   \<and> fds (proc_of (start_command (std_kernel 16 0) (open_also 5 std_process)
        (plain_cmd\<lparr>cmd_out := 5\<rparr>))) 1 = Some (Other_File 5)"
  by code_simp

theorem explicit_descriptor_for_in_and_out_only_witness:
  "fds (proc_of (start_command (std_kernel 16 0) (open_also 5 std_process)
        (plain_cmd\<lparr>cmd_in := 5\<rparr>))) 0 = Some (Other_File 5)
   \<and> fds (proc_of (start_command (std_kernel 16 0) (open_also 5 std_process)
        (plain_cmd\<lparr>cmd_out := 5\<rparr>))) 1 = Some (Other_File 5)
   \<and> fds (proc_of (start_command (std_kernel 16 0) (open_also 5 std_process)
        (plain_cmd\<lparr>cmd_err := 5\<rparr>))) 2 = Some (Other_File 2)
   \<and> but_err (start_command (std_kernel 16 7) (open_also 5 std_process)
        (plain_cmd\<lparr>cmd_err := 5, cmd_err := 0\<rparr>))
     = but_err (start_command (std_kernel 16 7) (open_also 5 std_process)
        (plain_cmd\<lparr>cmd_err := 5\<rparr>))"
proof -
  let ?k = "std_kernel 16 0" and ?p = "open_also 5 std_process"
  have e: "ending_of (start_command ?k ?p (plain_cmd\<lparr>cmd_in := 5\<rparr>)) = Replaced False [''true'']"
    "ending_of (start_command ?k ?p (plain_cmd\<lparr>cmd_out := 5\<rparr>)) = Replaced False [''true'']"
    by code_simp+
  have g: "\<not> gave_up ?p (start_command ?k ?p (plain_cmd\<lparr>cmd_in := 5\<rparr>))"
    "\<not> gave_up ?p (start_command ?k ?p (plain_cmd\<lparr>cmd_out := 5\<rparr>))"
    using e by (auto simp: gave_up_def)
  have h: "fork_ret ?k = 0" "0 < nofile ?k" "Suc 0 < nofile ?k"
    "fds ?p 5 = Some (Other_File 5)" "fds ?p 0 \<noteq> None" "fds ?p 1 \<noteq> None"
    "fds ?p 2 = Some (Other_File 2)"
    by (simp_all add: std_kernel_def open_also_def std_process_def)
  have c: "\<not> no_stdin plain_cmd" "\<not> no_stdout plain_cmd" "\<not> no_stderr plain_cmd"
    "\<not> stdout_to_stderr plain_cmd" "cmd_in plain_cmd = 0" "cmd_out plain_cmd = 0"
    by (simp_all add: plain_cmd_def)
  note t_in = explicit_descriptor_for_in_and_out_only
      [of ?k ?p "plain_cmd\<lparr>cmd_in := 5\<rparr>", THEN conjunct1, THEN mp]
  note t_out = explicit_descriptor_for_in_and_out_only
      [of ?k ?p "plain_cmd\<lparr>cmd_out := 5\<rparr>", THEN conjunct2, THEN conjunct1, THEN mp]
  note t_err = explicit_descriptor_for_in_and_out_only
      [of ?k ?p "plain_cmd\<lparr>cmd_err := 5\<rparr>", THEN conjunct2, THEN conjunct2, THEN conjunct2, THEN mp]
  note t_any = explicit_descriptor_for_in_and_out_only
      [of "std_kernel 16 7" ?p "plain_cmd\<lparr>cmd_err := 5\<rparr>", THEN conjunct2, THEN conjunct2,
        THEN conjunct1, THEN mp, THEN spec, THEN mp]
  have "fds (proc_of (start_command ?k ?p (plain_cmd\<lparr>cmd_in := 5\<rparr>))) 0
      = fds ?p (cmd_in (plain_cmd\<lparr>cmd_in := 5\<rparr>))"
    by (rule t_in) (simp add: g h c)
  moreover
  have "fds (proc_of (start_command ?k ?p (plain_cmd\<lparr>cmd_out := 5\<rparr>))) 1
      = fds ?p (cmd_out (plain_cmd\<lparr>cmd_out := 5\<rparr>))"
    by (rule t_out) (simp add: g h c)
  moreover
  have "fds (proc_of (start_command ?k ?p (plain_cmd\<lparr>cmd_err := 5\<rparr>))) 2 = fds ?p 2"
    by (rule t_err) (simp add: h c)
  moreover
  have "but_err (start_command (std_kernel 16 7) ?p (plain_cmd\<lparr>cmd_err := 5, cmd_err := 0\<rparr>))
     = but_err (start_command (std_kernel 16 7) ?p (plain_cmd\<lparr>cmd_err := 5\<rparr>))"
    by (rule t_any) simp_all
  ultimately show ?thesis
    by (simp add: h)
qed

section \<open>Suppressed streams\<close>

text \<open>
  The three wiring blocks test the suppress flag first: with the flag set, the pipe, the
  redirection and the explicit descriptor of the stream are not looked at, and the block is
  \<open>dup_devnull\<close> on the stream's descriptor. A field at 0 or above asks for no pipe.
\<close>

lemma child_stdin_suppressed:
  "no_stdin cmd \<Longrightarrow> child_stdin k cmd need_in fdin p = dup_devnull k 0 p"
  by (simp add: child_stdin_def)

lemma child_stdout_suppressed:
  "no_stdout cmd \<Longrightarrow> child_stdout k cmd need_out fdout p = dup_devnull k 1 p"
  by (simp add: child_stdout_def)

lemma child_stderr_suppressed:
  "no_stderr cmd \<Longrightarrow> child_stderr k cmd need_err fderr p = dup_devnull k 2 p"
  by (simp add: child_stderr_def)

text \<open>
  \<open>dup_devnull\<close> binds its target to the null device when the target is open (see
  \<open>fds_dup_devnull_target\<close>). When the target is the lowest free descriptor, \<^verbatim>\<open>open\<close>
  returns the target itself, \<^verbatim>\<open>dup2\<close> has nothing to do, and the \<^verbatim>\<open>close\<close> that follows
  closes the target.
\<close>

lemma dup_devnull_closes_target:
  assumes "null_avail k" and "lowest_free k p = Some to"
  shows "fds (dup_devnull k to p) to = None"
  using assms lowest_free_Some [OF assms(2)]
  by (simp add: dup_devnull_def sys_open_null_def sys_dup2_def sys_close_def)

lemma explicit_descriptors_take_no_pipe:
  assumes "0 \<le> cmd_in cmd" and "0 \<le> cmd_out cmd" and "0 \<le> cmd_err cmd"
  shows "pipe_calls (proc_of (start_command k p cmd)) = pipe_calls p"
  using assms by (simp add: start_command_no_need start_command_fork_eq)

text \<open>
  In the child, a suppressed stream is on the null device at the exec when, at the fork, the
  three standard descriptors are open and one more descriptor is free, no end of a pipe is a
  standard descriptor, and an explicit descriptor does not name the standard descriptor of a
  later stream.
\<close>

lemma lowest_free_exists:
  assumes "0 \<le> h" and "h < int (nofile k)" and "fds p h = None"
  shows "lowest_free k p \<noteq> None"
proof -
  have "h \<in> set (map int [0..<nofile k])"
    using assms(1,2) by (auto simp: image_iff intro: bexI [of _ "nat h"])
  with assms(3) show ?thesis
    by (auto simp: lowest_free_def find_None_iff)
qed

lemma child_stdin_free:
  "fds p x = None \<Longrightarrow> x \<noteq> 0 \<Longrightarrow> fds (child_stdin k cmd ni fi p) x = None"
  by (auto simp: child_stdin_def fds_dup_devnull_other fds_close_pair fds_sys_close
      fds_sys_dup2_other)

lemma child_stdout_free:
  "fds p x = None \<Longrightarrow> x \<noteq> 1 \<Longrightarrow> fds (child_stdout k cmd no fo p) x = None"
  by (auto simp: child_stdout_def fds_dup_devnull_other fds_close_pair fds_sys_close
      fds_sys_dup2_other)

lemma in_child_suppressed_on_null_device:
  assumes null: "null_avail k" and lim: "2 < nofile k"
    and std: "fds p 0 \<noteq> None" "fds p 1 \<noteq> None" "fds p 2 \<noteq> None"
    and room: "0 \<le> h" "h < int (nofile k)" "fds p h = None"
    and ends: "ni \<Longrightarrow> fst fi \<notin> {0, 1, 2} \<and> snd fi \<notin> {0, 1, 2}"
      "no \<Longrightarrow> fst fo \<notin> {0, 1, 2} \<and> snd fo \<notin> {0, 1, 2}"
      "ne \<Longrightarrow> fst fe \<notin> {0, 1, 2} \<and> snd fe \<notin> {0, 1, 2}"
    and expl: "\<not> no_stdin cmd \<Longrightarrow> \<not> ni \<Longrightarrow> cmd_in cmd \<notin> {1, 2}"
      "\<not> no_stdout cmd \<Longrightarrow> \<not> stdout_to_stderr cmd \<Longrightarrow> \<not> no \<Longrightarrow> cmd_out cmd \<noteq> 2"
  shows "(no_stdin cmd \<longrightarrow> fds (proc_of (in_child k cmd ni fi no fo ne fe p)) 0 = Some Null_Device)
       \<and> (no_stdout cmd \<longrightarrow> fds (proc_of (in_child k cmd ni fi no fo ne fe p)) 1 = Some Null_Device)
       \<and> (no_stderr cmd \<longrightarrow> fds (proc_of (in_child k cmd ni fi no fo ne fe p)) 2 = Some Null_Device)"
proof -
  let ?p1 = "child_stdin k cmd ni fi p"
  let ?p2 = "child_stdout k cmd no fo ?p1"
  let ?p3 = "child_stderr k cmd ne fe ?p2"
  have h: "h \<noteq> 0" "h \<noteq> 1" "h \<noteq> 2"
    using std room(3) by auto
  have free0: "lowest_free k p \<noteq> None"
    using room by (rule lowest_free_exists)
  have f1: "fds ?p1 h = None"
    using room(3) h(1) by (rule child_stdin_free)
  then have free1: "lowest_free k ?p1 \<noteq> None"
    using room(1,2) by (intro lowest_free_exists)
  have f2: "fds ?p2 h = None"
    using f1 h(2) by (rule child_stdout_free)
  then have free2: "lowest_free k ?p2 \<noteq> None"
    using room(1,2) by (intro lowest_free_exists)
  have o1: "fds ?p1 1 = fds p 1" "fds ?p1 2 = fds p 2"
    by (insert ends(1) expl(1), rule child_stdin_other; auto)+
  have o2: "fds ?p2 2 = fds ?p1 2" "fds ?p2 0 = fds ?p1 0"
    by (insert ends(2) expl(2), rule child_stdout_other; auto)+
  have o3: "fds ?p3 0 = fds ?p2 0" "fds ?p3 1 = fds ?p2 1"
    by (insert ends(3), rule child_stderr_other; auto)+
  have a: "fds ?p1 0 = Some Null_Device" if "no_stdin cmd"
    using that null free0 std(1) lim
    by (simp add: child_stdin_def fds_dup_devnull_target)
  have b: "fds ?p2 1 = Some Null_Device" if "no_stdout cmd"
    using that null free1 std(2) lim o1(1)
    by (simp add: child_stdout_def fds_dup_devnull_target)
  have c: "fds ?p3 2 = Some Null_Device" if "no_stderr cmd"
    using that null free2 std(3) lim o1(2) o2(1)
    by (simp add: child_stderr_def fds_dup_devnull_target)
  show ?thesis
    using a b c o2(2) o3 by (simp add: in_child_def)
qed

text \<open>
  C3 at the inputs where the code departs from it. A process whose descriptor 0 is closed
  runs the wrapper's structure for \<open>RUN_COMMAND_NO_STDIN\<close>: the child reaches the exec with
  descriptor 0 closed, not on the null device. With the three standard descriptors open,
  \<open>in = 1\<close> with \<open>no_stdout\<close> leaves descriptor 1 closed, and \<open>out = 2\<close> with \<open>no_stderr\<close>
  leaves descriptor 2 closed: the wiring of the earlier stream closes the descriptor, and
  \<open>dup_devnull\<close> then opens and closes it. With nothing in the way all three suppressed
  streams are on the null device.
\<close>

theorem suppressed_stream_left_closed:
  "ending_of (start_command (std_kernel 16 0) (sys_close 0 std_process)
       (prepare_run_command_v_opt [''true''] RUN_COMMAND_NO_STDIN)) = Replaced False [''true'']
   \<and> no_stdin (prepare_run_command_v_opt [''true''] RUN_COMMAND_NO_STDIN)
   \<and> fds (proc_of (start_command (std_kernel 16 0) (sys_close 0 std_process)
       (prepare_run_command_v_opt [''true''] RUN_COMMAND_NO_STDIN))) 0 = None
   \<and> ending_of (start_command (std_kernel 16 0) std_process
       (plain_cmd\<lparr>cmd_in := 1, no_stdout := True\<rparr>)) = Replaced False [''true'']
   \<and> fds (proc_of (start_command (std_kernel 16 0) std_process
       (plain_cmd\<lparr>cmd_in := 1, no_stdout := True\<rparr>))) 1 = None
   \<and> fds (proc_of (start_command (std_kernel 16 0) std_process
       (plain_cmd\<lparr>cmd_out := 2, no_stderr := True\<rparr>))) 2 = None
   \<and> fds (proc_of (start_command (std_kernel 16 0) std_process
       (plain_cmd\<lparr>no_stdin := True, no_stdout := True, no_stderr := True\<rparr>))) 0 = Some Null_Device"
  by code_simp

end
